theory Spec2Isabelle
  imports Main
begin

section \<open>Strings as the reader uses them\<close>

text \<open>
  Python's \<open>str\<close> operations used by \<open>parser.py\<close>, on ASCII text. A string is a
  list of characters; \<open>upper\<close> maps the letters \<open>a\<close> to \<open>z\<close> and leaves every
  other character alone.
\<close>

definition startswith :: "string \<Rightarrow> string \<Rightarrow> bool" where
  "startswith s pre = (take (length pre) s = pre)"

definition endswith :: "string \<Rightarrow> string \<Rightarrow> bool" where
  "endswith s suf = (length suf \<le> length s \<and> drop (length s - length suf) s = suf)"

definition replace :: "char \<Rightarrow> char \<Rightarrow> string \<Rightarrow> string" where
  "replace old new s = map (\<lambda>c. if c = old then new else c) s"

definition upper_char :: "char \<Rightarrow> char" where
  "upper_char c =
     (case map_of (zip ''abcdefghijklmnopqrstuvwxyz'' ''ABCDEFGHIJKLMNOPQRSTUVWXYZ'') c of
        Some u \<Rightarrow> u
      | None \<Rightarrow> c)"

definition upper :: "string \<Rightarrow> string" where
  "upper s = map upper_char s"

text \<open>\<open>s.split(c)\<close> for a one-character separator: never empty, one more segment than
  there are separators.\<close>

fun split :: "char \<Rightarrow> string \<Rightarrow> string list" where
  "split c [] = [[]]"
| "split c (x # xs) =
     (if x = c then [] # split c xs
      else (case split c xs of
              w # ws \<Rightarrow> (x # w) # ws
            | [] \<Rightarrow> [[x]]))"

text \<open>\<open>s.split(c, 1)\<close>: at most one cut, at the first separator.\<close>

definition split_max1 :: "char \<Rightarrow> string \<Rightarrow> string list" where
  "split_max1 c s =
     (case dropWhile (\<lambda>x. x \<noteq> c) s of
        [] \<Rightarrow> [s]
      | _ # r \<Rightarrow> [takeWhile (\<lambda>x. x \<noteq> c) s, r])"

text \<open>\<open>sep.join(xs)\<close>.\<close>

fun join :: "string \<Rightarrow> string list \<Rightarrow> string" where
  "join sep [] = []"
| "join sep [x] = x"
| "join sep (x # y # ys) = x @ sep @ join sep (y # ys)"

section \<open>Identifier mangling\<close>

text \<open>
  \<open>hy_symbol_mangle\<close>: four rewrites of one variable, each reading what the previous
  one left.
\<close>

definition hy_symbol_mangle :: "string \<Rightarrow> string" where
  "hy_symbol_mangle p =
     (let p1 = (if startswith p ''*'' \<and> endswith p ''*'' \<and> p \<notin> {''*'', ''**''}
                then upper (butlast (tl p)) else p);
          p2 = (if CHR ''-'' \<in> set p1 \<and> p1 \<noteq> ''-''
                then replace CHR ''-'' CHR ''_'' p1 else p1);
          p3 = (if endswith p2 ''?'' \<and> p2 \<noteq> ''?''
                then ''is_'' @ butlast p2 else p2);
          p4 = (if endswith p3 ''!'' \<and> p3 \<noteq> ''!''
                then butlast p3 @ ''_bang'' else p3)
      in p4)"

section \<open>Tokens, nodes and exceptions\<close>

text \<open>
  A token of the lexer: its kind, its text (\<open>value\<close>, also returned by \<open>getstr()\<close>)
  and the position of its first character.
\<close>

record source_position =
  lineno :: int
  colno :: int

record token =
  gettokentype :: string
  getstr :: string
  source_pos :: source_position

text \<open>
  The four position attributes that the boundary decorators assign together. A node
  that no decorator has touched has none of them (\<open>None\<close>).
\<close>

record span =
  start_line :: int
  start_column :: int
  end_line :: int
  end_column :: int

text \<open>
  Modelled from the spec: the model classes of \<open>hy.models\<close>, whose source is not part
  of the file under study. Following the spec's data model, each node kind is a
  constructor holding the node's optional span and its payload; Expression, List, Dict
  and Set hold their children in order, and a Cons is the pair of its head and tail.
  The payloads of floats and complex numbers are left abstract (\<open>'f\<close>, \<open>'c\<close>).
\<close>

datatype ('f, 'c) hy =
    HySymbol "span option" string
  | HyKeyword "span option" string
  | HyInteger "span option" int
  | HyFloat "span option" 'f
  | HyComplex "span option" 'c
  | HyString "span option" string "string option"
  | HyBytes "span option" string
  | HyExpression "span option" "('f, 'c) hy list"
  | HyList "span option" "('f, 'c) hy list"
  | HyDict "span option" "('f, 'c) hy list"
  | HySet "span option" "('f, 'c) hy list"
  | HyCons "span option" "('f, 'c) hy" "('f, 'c) hy"

fun span_of :: "('f, 'c) hy \<Rightarrow> span option" where
  "span_of (HySymbol sp _) = sp"
| "span_of (HyKeyword sp _) = sp"
| "span_of (HyInteger sp _) = sp"
| "span_of (HyFloat sp _) = sp"
| "span_of (HyComplex sp _) = sp"
| "span_of (HyString sp _ _) = sp"
| "span_of (HyBytes sp _) = sp"
| "span_of (HyExpression sp _) = sp"
| "span_of (HyList sp _) = sp"
| "span_of (HyDict sp _) = sp"
| "span_of (HySet sp _) = sp"
| "span_of (HyCons sp _ _) = sp"

fun set_span :: "span \<Rightarrow> ('f, 'c) hy \<Rightarrow> ('f, 'c) hy" where
  "set_span s (HySymbol _ x) = HySymbol (Some s) x"
| "set_span s (HyKeyword _ x) = HyKeyword (Some s) x"
| "set_span s (HyInteger _ x) = HyInteger (Some s) x"
| "set_span s (HyFloat _ x) = HyFloat (Some s) x"
| "set_span s (HyComplex _ x) = HyComplex (Some s) x"
| "set_span s (HyString _ x b) = HyString (Some s) x b"
| "set_span s (HyBytes _ x) = HyBytes (Some s) x"
| "set_span s (HyExpression _ xs) = HyExpression (Some s) xs"
| "set_span s (HyList _ xs) = HyList (Some s) xs"
| "set_span s (HyDict _ xs) = HyDict (Some s) xs"
| "set_span s (HySet _ xs) = HySet (Some s) xs"
| "set_span s (HyCons _ a d) = HyCons (Some s) a d"

text \<open>
  Two nodes that differ only in source positions are the same result for a caller that
  compares values: \<open>strip\<close> forgets every span, at every depth.
\<close>

fun strip :: "('f, 'c) hy \<Rightarrow> ('f, 'c) hy" where
  "strip (HySymbol _ x) = HySymbol None x"
| "strip (HyKeyword _ x) = HyKeyword None x"
| "strip (HyInteger _ x) = HyInteger None x"
| "strip (HyFloat _ x) = HyFloat None x"
| "strip (HyComplex _ x) = HyComplex None x"
| "strip (HyString _ x b) = HyString None x b"
| "strip (HyBytes _ x) = HyBytes None x"
| "strip (HyExpression _ xs) = HyExpression None (map strip xs)"
| "strip (HyList _ xs) = HyList None (map strip xs)"
| "strip (HyDict _ xs) = HyDict None (map strip xs)"
| "strip (HySet _ xs) = HySet None (map strip xs)"
| "strip (HyCons _ a d) = HyCons None (strip a) (strip d)"

text \<open>
  What a production can raise: the two exception classes of \<open>hy.lex.exceptions\<close>,
  and Python's \<open>AttributeError\<close> for reading a position attribute a node does not have.
\<close>

datatype exc =
    LexException string int int
  | PrematureEndOfInput string
  | AttributeError

text \<open>The outcome of a production up to source positions.\<close>

fun strip_result :: "exc + ('f, 'c) hy \<Rightarrow> exc + ('f, 'c) hy" where
  "strip_result (Inl e) = Inl e"
| "strip_result (Inr v) = Inr (strip v)"

section \<open>The literal readers of the host\<close>

text \<open>
  \<open>symbol_like\<close> and the two string productions call code that is not in
  \<open>parser.py\<close>: the constructors \<open>HyInteger\<close>, \<open>HyFloat\<close> and \<open>HyComplex\<close> applied to
  text (each returns a value or raises \<open>ValueError\<close>, here \<open>None\<close>), Python's
  \<open>eval\<close> on a re-quoted string literal, and the lexer's regular expression for bracket
  strings. They are parameters of the model, collected in one record; every theorem
  below that mentions a host \<open>h\<close> holds for all of them.
\<close>

datatype pystr = Str string | Bytes string

record ('f, 'c) host =
  new_HyInteger :: "string \<Rightarrow> int option"
  new_HyFloat :: "string \<Rightarrow> 'f option"
  new_HyComplex :: "string \<Rightarrow> 'c option"
  eval_literal :: "string \<Rightarrow> exc + pystr"
  bracket_string_re_match :: "string \<Rightarrow> (string \<times> string) option"

section \<open>The numeric and keyword classifier\<close>

text \<open>
  \<open>symbol_like\<close>: each \<open>try\<close> returns at once when the constructor succeeds and falls
  through on \<open>ValueError\<close>. The tuple assignment \<open>lhs, rhs = obj.split('/')\<close> raises
  \<open>ValueError\<close> unless the split has exactly two parts. The result \<open>None\<close> is
  Python's \<open>None\<close>: the text is none of the five.
\<close>

definition symbol_like :: "('f, 'c) host \<Rightarrow> string \<Rightarrow> ('f, 'c) hy option" where
  "symbol_like h obj =
     (case new_HyInteger h obj of
        Some n \<Rightarrow> Some (HyInteger None n)
      | None \<Rightarrow>
     (case (if CHR ''/'' \<in> set obj then
              (case split CHR ''/'' obj of
                 [lhs, rhs] \<Rightarrow>
                   (case new_HyInteger h lhs of
                      None \<Rightarrow> None
                    | Some a \<Rightarrow>
                        (case new_HyInteger h rhs of
                           None \<Rightarrow> None
                         | Some b \<Rightarrow>
                             Some (HyExpression None
                               [HySymbol None ''fraction'', HyInteger None a, HyInteger None b])))
               | _ \<Rightarrow> None)
            else None) of
        Some e \<Rightarrow> Some e
      | None \<Rightarrow>
     (case new_HyFloat h obj of
        Some f \<Rightarrow> Some (HyFloat None f)
      | None \<Rightarrow>
     (case (if obj \<noteq> ''j'' then new_HyComplex h obj else None) of
        Some c \<Rightarrow> Some (HyComplex None c)
      | None \<Rightarrow>
     (if startswith obj '':'' \<and> CHR ''.'' \<notin> set obj then Some (HyKeyword None obj)
      else None)))))"

section \<open>The boundary decorators\<close>

text \<open>
  \<open>set_boundaries\<close> wraps a production whose first and last items are tokens. The
  second argument is \<open>p[-1]\<close> when the production has more than one item, and \<open>None\<close>
  when \<open>p[0]\<close> and \<open>p[-1]\<close> are the same token (then \<open>start is end\<close> and the end
  column is computed from the token's text). An exception of the wrapped production
  passes through.
\<close>

definition set_boundaries ::
  "token \<Rightarrow> token option \<Rightarrow> exc + ('f, 'c) hy \<Rightarrow> exc + ('f, 'c) hy" where
  "set_boundaries p0 plast r =
     (let start = source_pos p0 in
      case r of
        Inl e \<Rightarrow> Inl e
      | Inr ret \<Rightarrow>
          (case plast of
             Some pl \<Rightarrow>
               Inr (set_span \<lparr>start_line = lineno start, start_column = colno start,
                      end_line = lineno (source_pos pl), end_column = colno (source_pos pl)\<rparr> ret)
           | None \<Rightarrow>
               Inr (set_span \<lparr>start_line = lineno start, start_column = colno start,
                      end_line = lineno start,
                      end_column = colno start + int (length (getstr p0))\<rparr> ret)))"

text \<open>
  \<open>set_quote_boundaries\<close> wraps a production whose first item is a marker token and
  whose last item is a node; it reads the end of the span from that node.
\<close>

definition set_quote_boundaries ::
  "token \<Rightarrow> ('f, 'c) hy \<Rightarrow> exc + ('f, 'c) hy \<Rightarrow> exc + ('f, 'c) hy" where
  "set_quote_boundaries p0 plast r =
     (let start = source_pos p0 in
      case r of
        Inl e \<Rightarrow> Inl e
      | Inr ret \<Rightarrow>
          (case span_of plast of
             None \<Rightarrow> Inl AttributeError
           | Some s \<Rightarrow>
               Inr (set_span \<lparr>start_line = lineno start, start_column = colno start,
                      end_line = end_line s, end_column = end_column s\<rparr> ret)))"

section \<open>The productions\<close>

definition main :: "('f, 'c) hy list \<Rightarrow> ('f, 'c) hy list" where
  "main p0 = p0"

definition main_empty :: "('f, 'c) hy list" where
  "main_empty = []"

text \<open>A bare dot: a \<open>HySymbol\<close> whose text is \<open>.\<close>\<close>

fun is_dot :: "('f, 'c) hy \<Rightarrow> bool" where
  "is_dot (HySymbol _ s) = (s = ''.'')"
| "is_dot _ = False"

fun reject_spurious_dots :: "('f, 'c) hy list list \<Rightarrow> exc + unit" where
  "reject_spurious_dots [] = Inr ()"
| "reject_spurious_dots ([] # items) = reject_spurious_dots items"
| "reject_spurious_dots ((tok # list) # items) =
     (if is_dot tok then
        (case span_of tok of
           None \<Rightarrow> Inl AttributeError
         | Some s \<Rightarrow> Inl (LexException ''Malformed dotted list'' (start_line s) (start_column s)))
      else reject_spurious_dots (list # items))"

text \<open>
  \<open>paren\<close>, decorated: the recursive call goes through the decorator again, with the
  same two parenthesis tokens and the contents minus their first item.
\<close>

function paren :: "token \<Rightarrow> ('f, 'c) hy list \<Rightarrow> token \<Rightarrow> exc + ('f, 'c) hy" where
  "paren p0 cont p2 =
     set_boundaries p0 (Some p2)
       (if length cont \<ge> 3 \<and> is_dot (cont ! (length cont - 2)) then
          (case reject_spurious_dots [take (length cont - 2) cont, drop (length cont - 1) cont] of
             Inl e \<Rightarrow> Inl e
           | Inr _ \<Rightarrow>
               if length cont = 3 then Inr (HyCons None (cont ! 0) (cont ! 2))
               else
                 (case paren p0 (tl cont) p2 of
                    Inl e \<Rightarrow> Inl e
                  | Inr d \<Rightarrow> Inr (HyCons None (cont ! 0) d)))
        else
          (case reject_spurious_dots [tl cont] of
             Inl e \<Rightarrow> Inl e
           | Inr _ \<Rightarrow> Inr (HyExpression None cont)))"
  by pat_completeness auto
termination
  by (relation "measure (\<lambda>(p0, cont, p2). length cont)") auto

declare paren.simps [simp del]

definition empty_paren :: "token \<Rightarrow> token \<Rightarrow> exc + ('f, 'c) hy" where
  "empty_paren p0 p1 = set_boundaries p0 (Some p1) (Inr (HyExpression None []))"

definition list_contents :: "('f, 'c) hy \<Rightarrow> ('f, 'c) hy list \<Rightarrow> ('f, 'c) hy list" where
  "list_contents p0 p1 = [p0] @ p1"

definition list_contents_single :: "('f, 'c) hy \<Rightarrow> ('f, 'c) hy list" where
  "list_contents_single p0 = [p0]"

definition list_contents_empty :: "token \<Rightarrow> ('f, 'c) hy \<Rightarrow> unit \<Rightarrow> ('f, 'c) hy list" where
  "list_contents_empty p0 p1 p2 = []"

definition term_pass :: "('f, 'c) hy \<Rightarrow> ('f, 'c) hy" where
  "term_pass p0 = p0"

definition term_discard :: "token \<Rightarrow> ('f, 'c) hy \<Rightarrow> ('f, 'c) hy \<Rightarrow> ('f, 'c) hy" where
  "term_discard p0 p1 p2 = p2"

definition term_quote :: "token \<Rightarrow> ('f, 'c) hy \<Rightarrow> exc + ('f, 'c) hy" where
  "term_quote p0 p1 =
     set_quote_boundaries p0 p1 (Inr (HyExpression None [HySymbol None ''quote'', p1]))"

definition term_quasiquote :: "token \<Rightarrow> ('f, 'c) hy \<Rightarrow> exc + ('f, 'c) hy" where
  "term_quasiquote p0 p1 =
     set_quote_boundaries p0 p1 (Inr (HyExpression None [HySymbol None ''quasiquote'', p1]))"

definition term_unquote :: "token \<Rightarrow> ('f, 'c) hy \<Rightarrow> exc + ('f, 'c) hy" where
  "term_unquote p0 p1 =
     set_quote_boundaries p0 p1 (Inr (HyExpression None [HySymbol None ''unquote'', p1]))"

definition term_unquote_splice :: "token \<Rightarrow> ('f, 'c) hy \<Rightarrow> exc + ('f, 'c) hy" where
  "term_unquote_splice p0 p1 =
     set_quote_boundaries p0 p1
       (Inr (HyExpression None [HySymbol None ''unquote_splice'', p1]))"

definition too_many_stars :: string where
  "too_many_stars =
     ''Too many stars in `#*` construct (if you want to unpack a symbol '' @
     ''beginning with a star, separate it with whitespace)''"

definition term_hashstars :: "token \<Rightarrow> ('f, 'c) hy \<Rightarrow> exc + ('f, 'c) hy" where
  "term_hashstars p0 p1 =
     set_quote_boundaries p0 p1
       (let n_stars = length (tl (getstr p0)) in
        if n_stars = 1 then Inr (HyExpression None [HySymbol None ''unpack_iterable'', p1])
        else if n_stars = 2 then Inr (HyExpression None [HySymbol None ''unpack_mapping'', p1])
        else Inl (LexException too_many_stars
                    (lineno (source_pos p0)) (colno (source_pos p0))))"

definition hash_other :: "token \<Rightarrow> ('f, 'c) hy \<Rightarrow> exc + ('f, 'c) hy" where
  "hash_other p0 p1 =
     set_quote_boundaries p0 p1
       (let st = tl (getstr p0); str_object = HyString None st None; expr = p1 in
        Inr (HyExpression None [HySymbol None ''dispatch_tag_macro'', str_object, expr]))"

definition t_set :: "token \<Rightarrow> ('f, 'c) hy list \<Rightarrow> token \<Rightarrow> exc + ('f, 'c) hy" where
  "t_set p0 p1 p2 = set_boundaries p0 (Some p2) (Inr (HySet None p1))"

definition empty_set :: "token \<Rightarrow> token \<Rightarrow> exc + ('f, 'c) hy" where
  "empty_set p0 p1 = set_boundaries p0 (Some p1) (Inr (HySet None []))"

definition t_dict :: "token \<Rightarrow> ('f, 'c) hy list \<Rightarrow> token \<Rightarrow> exc + ('f, 'c) hy" where
  "t_dict p0 p1 p2 = set_boundaries p0 (Some p2) (Inr (HyDict None p1))"

definition empty_dict :: "token \<Rightarrow> token \<Rightarrow> exc + ('f, 'c) hy" where
  "empty_dict p0 p1 = set_boundaries p0 (Some p1) (Inr (HyDict None []))"

definition t_list :: "token \<Rightarrow> ('f, 'c) hy list \<Rightarrow> token \<Rightarrow> exc + ('f, 'c) hy" where
  "t_list p0 p1 p2 = set_boundaries p0 (Some p2) (Inr (HyList None p1))"

definition t_empty_list :: "token \<Rightarrow> token \<Rightarrow> exc + ('f, 'c) hy" where
  "t_empty_list p0 p1 = set_boundaries p0 (Some p1) (Inr (HyList None []))"

text \<open>\<open>s.replace(old, new, 1)\<close> for a one-character \<open>old\<close>.\<close>

fun replace_first :: "char \<Rightarrow> string \<Rightarrow> string \<Rightarrow> string" where
  "replace_first old new [] = []"
| "replace_first old new (x # xs) =
     (if x = old then new @ xs else x # replace_first old new xs)"

definition t_string :: "('f, 'c) host \<Rightarrow> token \<Rightarrow> exc + ('f, 'c) hy" where
  "t_string h p0 =
     set_boundaries p0 None
       (case eval_literal h
               (butlast (replace_first (CHR 0x22) [CHR 0x22, CHR 0x22, CHR 0x22] (getstr p0))
                @ [CHR 0x22, CHR 0x22, CHR 0x22]) of
          Inl e \<Rightarrow> Inl e
        | Inr (Str s) \<Rightarrow> Inr (HyString None s None)
        | Inr (Bytes s) \<Rightarrow> Inr (HyBytes None s))"

definition t_partial_string :: "token \<Rightarrow> exc + ('f, 'c) hy" where
  "t_partial_string p0 = Inl (PrematureEndOfInput ''Premature end of input'')"

definition t_bracket_string :: "('f, 'c) host \<Rightarrow> token \<Rightarrow> exc + ('f, 'c) hy" where
  "t_bracket_string h p0 =
     set_boundaries p0 None
       (case bracket_string_re_match h (getstr p0) of
          None \<Rightarrow> Inl AttributeError
        | Some (delim, content) \<Rightarrow> Inr (HyString None content (Some delim)))"

definition no_attribute :: string where
  "no_attribute =
     ''Cannot access attribute on anything other than a name (in '' @
     ''order to get attributes of expressions, use '' @
     ''`(. <expression> <attr>)` or `(.<attr> <expression>)`)''"

definition t_identifier :: "('f, 'c) host \<Rightarrow> token \<Rightarrow> exc + ('f, 'c) hy" where
  "t_identifier h p0 =
     set_boundaries p0 None
       (let obj = getstr p0 in
        case symbol_like h obj of
          Some val \<Rightarrow> Inr val
        | None \<Rightarrow>
            if CHR ''.'' \<in> set obj \<and> symbol_like h (split_max1 CHR ''.'' obj ! 0) \<noteq> None
            then Inl (LexException no_attribute
                        (lineno (source_pos p0)) (colno (source_pos p0)))
            else Inr (HySymbol None
                        (join ''.'' (map hy_symbol_mangle (split CHR ''.'' obj)))))"

definition error_handler :: "token \<Rightarrow> exc" where
  "error_handler tok =
     (let tokentype = gettokentype tok in
      if tokentype = ''$end'' then PrematureEndOfInput ''Premature end of input''
      else LexException (''Ran into a '' @ tokentype @ '' where it wasn't expected.'')
             (lineno (source_pos tok)) (colno (source_pos tok)))"

section \<open>The grammar\<close>

text \<open>
  The parser generator is a library; what \<open>parser.py\<close> contributes is the grammar and
  the function run at each reduction. A parse tree has one constructor per production
  (the single-token productions \<open>identifier\<close> and \<open>string\<close> and the bracketed forms
  are folded into \<open>term\<close>), with the tokens it consumed as leaves.
\<close>

datatype term_tree =
    Term_identifier token
  | Term_paren token list_contents_tree token
  | Term_empty_paren token token
  | Term_dict token list_contents_tree token
  | Term_empty_dict token token
  | Term_list token list_contents_tree token
  | Term_empty_list token token
  | Term_set token list_contents_tree token
  | Term_empty_set token token
  | Term_string token
  | Term_partial_string token
  | Term_bracket_string token
  | Term_discard token term_tree term_tree
  | Term_quote token term_tree
  | Term_quasiquote token term_tree
  | Term_unquote token term_tree
  | Term_unquote_splice token term_tree
  | Term_hashstars token term_tree
  | Term_hash_other token term_tree
and list_contents_tree =
    List_contents term_tree list_contents_tree
  | List_contents_single term_tree
  | List_contents_empty token term_tree discarded_tree
and discarded_tree =
    Discarded token term_tree discarded_tree
  | Discarded_nil

datatype main_tree = Main list_contents_tree | Main_empty

text \<open>The tokens of a tree, left to right: the text that was parsed.\<close>

fun leaves_term :: "term_tree \<Rightarrow> token list"
  and leaves_list_contents :: "list_contents_tree \<Rightarrow> token list"
  and leaves_discarded :: "discarded_tree \<Rightarrow> token list" where
  "leaves_term (Term_identifier t) = [t]"
| "leaves_term (Term_paren l c r) = l # leaves_list_contents c @ [r]"
| "leaves_term (Term_empty_paren l r) = [l, r]"
| "leaves_term (Term_dict l c r) = l # leaves_list_contents c @ [r]"
| "leaves_term (Term_empty_dict l r) = [l, r]"
| "leaves_term (Term_list l c r) = l # leaves_list_contents c @ [r]"
| "leaves_term (Term_empty_list l r) = [l, r]"
| "leaves_term (Term_set l c r) = l # leaves_list_contents c @ [r]"
| "leaves_term (Term_empty_set l r) = [l, r]"
| "leaves_term (Term_string t) = [t]"
| "leaves_term (Term_partial_string t) = [t]"
| "leaves_term (Term_bracket_string t) = [t]"
| "leaves_term (Term_discard d a b) = d # leaves_term a @ leaves_term b"
| "leaves_term (Term_quote q a) = q # leaves_term a"
| "leaves_term (Term_quasiquote q a) = q # leaves_term a"
| "leaves_term (Term_unquote q a) = q # leaves_term a"
| "leaves_term (Term_unquote_splice q a) = q # leaves_term a"
| "leaves_term (Term_hashstars q a) = q # leaves_term a"
| "leaves_term (Term_hash_other q a) = q # leaves_term a"
| "leaves_list_contents (List_contents a c) = leaves_term a @ leaves_list_contents c"
| "leaves_list_contents (List_contents_single a) = leaves_term a"
| "leaves_list_contents (List_contents_empty d a ds) = d # leaves_term a @ leaves_discarded ds"
| "leaves_discarded (Discarded d a ds) = d # leaves_term a @ leaves_discarded ds"
| "leaves_discarded Discarded_nil = []"

text \<open>
  Running the productions over a tree, in the order of the reductions: the children
  from left to right, then the node's own function. The first exception raised ends the
  parse.
\<close>

fun reduce_term :: "('f, 'c) host \<Rightarrow> term_tree \<Rightarrow> exc + ('f, 'c) hy"
  and reduce_list_contents :: "('f, 'c) host \<Rightarrow> list_contents_tree \<Rightarrow> exc + ('f, 'c) hy list"
  and reduce_discarded :: "('f, 'c) host \<Rightarrow> discarded_tree \<Rightarrow> exc + unit" where
  "reduce_term h (Term_identifier t) =
     (case t_identifier h t of Inl e \<Rightarrow> Inl e | Inr v \<Rightarrow> Inr (term_pass v))"
| "reduce_term h (Term_paren l c r) =
     (case reduce_list_contents h c of
        Inl e \<Rightarrow> Inl e
      | Inr cont \<Rightarrow> (case paren l cont r of Inl e \<Rightarrow> Inl e | Inr v \<Rightarrow> Inr (term_pass v)))"
| "reduce_term h (Term_empty_paren l r) =
     (case empty_paren l r of Inl e \<Rightarrow> Inl e | Inr v \<Rightarrow> Inr (term_pass v))"
| "reduce_term h (Term_dict l c r) =
     (case reduce_list_contents h c of
        Inl e \<Rightarrow> Inl e
      | Inr cont \<Rightarrow> (case t_dict l cont r of Inl e \<Rightarrow> Inl e | Inr v \<Rightarrow> Inr (term_pass v)))"
| "reduce_term h (Term_empty_dict l r) =
     (case empty_dict l r of Inl e \<Rightarrow> Inl e | Inr v \<Rightarrow> Inr (term_pass v))"
| "reduce_term h (Term_list l c r) =
     (case reduce_list_contents h c of
        Inl e \<Rightarrow> Inl e
      | Inr cont \<Rightarrow> (case t_list l cont r of Inl e \<Rightarrow> Inl e | Inr v \<Rightarrow> Inr (term_pass v)))"
| "reduce_term h (Term_empty_list l r) =
     (case t_empty_list l r of Inl e \<Rightarrow> Inl e | Inr v \<Rightarrow> Inr (term_pass v))"
| "reduce_term h (Term_set l c r) =
     (case reduce_list_contents h c of
        Inl e \<Rightarrow> Inl e
      | Inr cont \<Rightarrow> (case t_set l cont r of Inl e \<Rightarrow> Inl e | Inr v \<Rightarrow> Inr (term_pass v)))"
| "reduce_term h (Term_empty_set l r) =
     (case empty_set l r of Inl e \<Rightarrow> Inl e | Inr v \<Rightarrow> Inr (term_pass v))"
| "reduce_term h (Term_string t) =
     (case t_string h t of Inl e \<Rightarrow> Inl e | Inr v \<Rightarrow> Inr (term_pass v))"
| "reduce_term h (Term_partial_string t) =
     (case t_partial_string t of Inl e \<Rightarrow> Inl e | Inr v \<Rightarrow> Inr (term_pass v))"
| "reduce_term h (Term_bracket_string t) =
     (case t_bracket_string h t of Inl e \<Rightarrow> Inl e | Inr v \<Rightarrow> Inr (term_pass v))"
| "reduce_term h (Term_discard d a b) =
     (case reduce_term h a of
        Inl e \<Rightarrow> Inl e
      | Inr p1 \<Rightarrow>
          (case reduce_term h b of
             Inl e \<Rightarrow> Inl e
           | Inr p2 \<Rightarrow> Inr (term_discard d p1 p2)))"
| "reduce_term h (Term_quote q a) =
     (case reduce_term h a of Inl e \<Rightarrow> Inl e | Inr p1 \<Rightarrow> term_quote q p1)"
| "reduce_term h (Term_quasiquote q a) =
     (case reduce_term h a of Inl e \<Rightarrow> Inl e | Inr p1 \<Rightarrow> term_quasiquote q p1)"
| "reduce_term h (Term_unquote q a) =
     (case reduce_term h a of Inl e \<Rightarrow> Inl e | Inr p1 \<Rightarrow> term_unquote q p1)"
| "reduce_term h (Term_unquote_splice q a) =
     (case reduce_term h a of Inl e \<Rightarrow> Inl e | Inr p1 \<Rightarrow> term_unquote_splice q p1)"
| "reduce_term h (Term_hashstars q a) =
     (case reduce_term h a of Inl e \<Rightarrow> Inl e | Inr p1 \<Rightarrow> term_hashstars q p1)"
| "reduce_term h (Term_hash_other q a) =
     (case reduce_term h a of Inl e \<Rightarrow> Inl e | Inr p1 \<Rightarrow> hash_other q p1)"
| "reduce_list_contents h (List_contents a c) =
     (case reduce_term h a of
        Inl e \<Rightarrow> Inl e
      | Inr p0 \<Rightarrow>
          (case reduce_list_contents h c of
             Inl e \<Rightarrow> Inl e
           | Inr p1 \<Rightarrow> Inr (list_contents p0 p1)))"
| "reduce_list_contents h (List_contents_single a) =
     (case reduce_term h a of Inl e \<Rightarrow> Inl e | Inr p0 \<Rightarrow> Inr (list_contents_single p0))"
| "reduce_list_contents h (List_contents_empty d a ds) =
     (case reduce_term h a of
        Inl e \<Rightarrow> Inl e
      | Inr p1 \<Rightarrow>
          (case reduce_discarded h ds of
             Inl e \<Rightarrow> Inl e
           | Inr p2 \<Rightarrow> Inr (list_contents_empty d p1 p2)))"
| "reduce_discarded h (Discarded d a ds) =
     (case reduce_term h a of
        Inl e \<Rightarrow> Inl e
      | Inr p1 \<Rightarrow> reduce_discarded h ds)"
| "reduce_discarded h Discarded_nil = Inr ()"

fun reduce_main :: "('f, 'c) host \<Rightarrow> main_tree \<Rightarrow> exc + ('f, 'c) hy list" where
  "reduce_main h (Main c) =
     (case reduce_list_contents h c of Inl e \<Rightarrow> Inl e | Inr p0 \<Rightarrow> Inr (main p0))"
| "reduce_main h Main_empty = Inr main_empty"

section \<open>The specification's reading of the classifier and the mangler\<close>

text \<open>
  The mangling rules as the specification numbers them, one function per rule, and their
  composition in the order 1, 2, 3, 4.
\<close>

definition rule_earmuffs :: "string \<Rightarrow> string" where
  "rule_earmuffs s =
     (if s \<noteq> [] \<and> hd s = CHR ''*'' \<and> last s = CHR ''*'' \<and> s \<noteq> ''*'' \<and> s \<noteq> ''**''
      then upper (butlast (tl s)) else s)"

definition rule_hyphens :: "string \<Rightarrow> string" where
  "rule_hyphens s =
     (if CHR ''-'' \<in> set s \<and> s \<noteq> ''-''
      then map (\<lambda>c. if c = CHR ''-'' then CHR ''_'' else c) s else s)"

definition rule_question :: "string \<Rightarrow> string" where
  "rule_question s =
     (if s \<noteq> [] \<and> last s = CHR ''?'' \<and> s \<noteq> ''?'' then ''is_'' @ butlast s else s)"

definition rule_bang :: "string \<Rightarrow> string" where
  "rule_bang s =
     (if s \<noteq> [] \<and> last s = CHR ''!'' \<and> s \<noteq> ''!'' then butlast s @ ''_bang'' else s)"

definition mangle_spec :: "string \<Rightarrow> string" where
  "mangle_spec s = rule_bang (rule_question (rule_hyphens (rule_earmuffs s)))"

text \<open>
  The classifier's five attempts as the specification words them. A fraction needs
  exactly one slash; its two sides are the text before and after that slash.
\<close>

definition attempt_integer :: "('f, 'c) host \<Rightarrow> string \<Rightarrow> ('f, 'c) hy option" where
  "attempt_integer h t = map_option (HyInteger None) (new_HyInteger h t)"

definition attempt_fraction :: "('f, 'c) host \<Rightarrow> string \<Rightarrow> ('f, 'c) hy option" where
  "attempt_fraction h t =
     (if count_list t CHR ''/'' = 1 then
        (case (new_HyInteger h (takeWhile (\<lambda>x. x \<noteq> CHR ''/'') t),
               new_HyInteger h (tl (dropWhile (\<lambda>x. x \<noteq> CHR ''/'') t))) of
           (Some a, Some b) \<Rightarrow>
             Some (HyExpression None
                     [HySymbol None ''fraction'', HyInteger None a, HyInteger None b])
         | _ \<Rightarrow> None)
      else None)"

definition attempt_float :: "('f, 'c) host \<Rightarrow> string \<Rightarrow> ('f, 'c) hy option" where
  "attempt_float h t = map_option (HyFloat None) (new_HyFloat h t)"

definition attempt_complex :: "('f, 'c) host \<Rightarrow> string \<Rightarrow> ('f, 'c) hy option" where
  "attempt_complex h t =
     (if t = ''j'' then None else map_option (HyComplex None) (new_HyComplex h t))"

definition attempt_keyword :: "('f, 'c) host \<Rightarrow> string \<Rightarrow> ('f, 'c) hy option" where
  "attempt_keyword h t =
     (if t \<noteq> [] \<and> hd t = CHR '':'' \<and> CHR ''.'' \<notin> set t then Some (HyKeyword None t)
      else None)"

text \<open>The first attempt that succeeds, in the order given.\<close>

fun first_success :: "'a option list \<Rightarrow> 'a option" where
  "first_success [] = None"
| "first_success (None # xs) = first_success xs"
| "first_success (Some v # xs) = Some v"

definition classify_spec :: "('f, 'c) host \<Rightarrow> string \<Rightarrow> ('f, 'c) hy option" where
  "classify_spec h t =
     first_success
       [attempt_integer h t, attempt_fraction h t, attempt_float h t,
        attempt_complex h t, attempt_keyword h t]"

text \<open>
  The spans of the specification: the plain span of a single token, the plain span of a
  form between two tokens, and the quote-family span from a marker to the end of the
  wrapped node.
\<close>

definition token_span :: "token \<Rightarrow> span" where
  "token_span t =
     \<lparr>start_line = lineno (source_pos t), start_column = colno (source_pos t),
      end_line = lineno (source_pos t),
      end_column = colno (source_pos t) + int (length (getstr t))\<rparr>"

definition plain_span :: "token \<Rightarrow> token \<Rightarrow> span" where
  "plain_span a b =
     \<lparr>start_line = lineno (source_pos a), start_column = colno (source_pos a),
      end_line = lineno (source_pos b), end_column = colno (source_pos b)\<rparr>"

definition quote_span :: "token \<Rightarrow> span \<Rightarrow> span" where
  "quote_span m s =
     \<lparr>start_line = lineno (source_pos m), start_column = colno (source_pos m),
      end_line = end_line s, end_column = end_column s\<rparr>"

text \<open>
  The names of all symbols in a node, and the shape of a name whose every
  dot-separated segment is free of hyphens or is the lone hyphen.
\<close>

fun symbol_names :: "('f, 'c) hy \<Rightarrow> string set" where
  "symbol_names (HySymbol _ s) = {s}"
| "symbol_names (HyExpression _ xs) = (\<Union>x \<in> set xs. symbol_names x)"
| "symbol_names (HyList _ xs) = (\<Union>x \<in> set xs. symbol_names x)"
| "symbol_names (HyDict _ xs) = (\<Union>x \<in> set xs. symbol_names x)"
| "symbol_names (HySet _ xs) = (\<Union>x \<in> set xs. symbol_names x)"
| "symbol_names (HyCons _ a d) = symbol_names a \<union> symbol_names d"
| "symbol_names _ = {}"

definition hyphen_free_segments :: "string \<Rightarrow> bool" where
  "hyphen_free_segments n =
     list_all (\<lambda>seg. CHR ''-'' \<notin> set seg \<or> seg = ''-'') (split CHR ''.'' n)"

section \<open>A host for worked examples\<close>

text \<open>
  Modelled from the spec: literal readers for plain decimal text, standing in for the
  host's readers where an example has to be evaluated. An integer is an optional sign
  and decimal digits; a float is an optional sign and digits with at most one decimal
  point; a complex literal is the imaginary-unit letter \<open>j\<close> after nothing, a sign or a
  float. Floats and complex numbers are represented by their text. Base prefixes, digit
  grouping, exponents and string escapes are not read. No theorem about the parser is
  restricted to this host.
\<close>

definition is_digit :: "char \<Rightarrow> bool" where
  "is_digit c = (c \<in> set ''0123456789'')"

definition digit_value :: "char \<Rightarrow> int" where
  "digit_value c =
     (case map_of (zip ''0123456789'' [0, 1, 2, 3, 4, 5, 6, 7, 8, 9]) c of
        Some d \<Rightarrow> d
      | None \<Rightarrow> 0)"

definition digits_value :: "string \<Rightarrow> int" where
  "digits_value s = foldl (\<lambda>a c. 10 * a + digit_value c) 0 s"

definition unsigned :: "string \<Rightarrow> string" where
  "unsigned s = (if startswith s ''-'' \<or> startswith s ''+'' then tl s else s)"

definition decimal_int :: "string \<Rightarrow> int option" where
  "decimal_int s =
     (let body = unsigned s in
      if body \<noteq> [] \<and> list_all is_digit body
      then Some (if startswith s ''-'' then - digits_value body else digits_value body)
      else None)"

definition decimal_float :: "string \<Rightarrow> string option" where
  "decimal_float s =
     (let body = unsigned s;
          a = takeWhile is_digit body;
          r = dropWhile is_digit body in
      if (r = [] \<and> a \<noteq> []) \<or>
         (r \<noteq> [] \<and> hd r = CHR ''.'' \<and> list_all is_digit (tl r) \<and> (a \<noteq> [] \<or> tl r \<noteq> []))
      then Some s else None)"

definition decimal_complex :: "string \<Rightarrow> string option" where
  "decimal_complex s =
     (if s \<noteq> [] \<and> last s = CHR ''j'' \<and>
         (butlast s \<in> {[], ''+'', ''-''} \<or> decimal_float (butlast s) \<noteq> None)
      then Some s else None)"

definition plain_literal :: "string \<Rightarrow> exc + pystr" where
  "plain_literal s = Inr (Str (drop 3 (take (length s - 3) s)))"

definition bracket_groups :: "string \<Rightarrow> (string \<times> string) option" where
  "bracket_groups s =
     (if startswith s ''#['' then
        (let delim = takeWhile (\<lambda>x. x \<noteq> CHR ''['') (drop 2 s);
             rest = drop (length delim + 3) s in
         Some (delim, take (length rest - (length delim + 2)) rest))
      else None)"

definition decimal_host :: "(string, string) host" where
  "decimal_host =
     \<lparr>new_HyInteger = decimal_int, new_HyFloat = decimal_float,
      new_HyComplex = decimal_complex, eval_literal = plain_literal,
      bracket_string_re_match = bracket_groups\<rparr>"

text \<open>An \<open>IDENTIFIER\<close> token and a marker token at a given line and column.\<close>

definition ident :: "string \<Rightarrow> int \<Rightarrow> int \<Rightarrow> token" where
  "ident s l c =
     \<lparr>gettokentype = ''IDENTIFIER'', getstr = s, source_pos = \<lparr>lineno = l, colno = c\<rparr>\<rparr>"

definition mark :: "string \<Rightarrow> string \<Rightarrow> int \<Rightarrow> int \<Rightarrow> token" where
  "mark k s l c =
     \<lparr>gettokentype = k, getstr = s, source_pos = \<lparr>lineno = l, colno = c\<rparr>\<rparr>"

text \<open>The exception raised at a spurious dot: it carries the dot's own start position.\<close>

definition dot_error :: "('f, 'c) hy \<Rightarrow> exc" where
  "dot_error tok =
     (case span_of tok of
        None \<Rightarrow> AttributeError
      | Some s \<Rightarrow> LexException ''Malformed dotted list'' (start_line s) (start_column s))"

section \<open>Facts about splitting, joining and mangling\<close>

lemma split_not_Nil: "split c s \<noteq> []"
  by (induction s) (auto split: list.splits)

lemma split_no_sep: "c \<notin> set s \<Longrightarrow> split c s = [s]"
  by (induction s) auto

lemma split_append_sep: "c \<notin> set a \<Longrightarrow> split c (a @ c # b) = a # split c b"
  by (induction a) auto

lemma length_split: "length (split c s) = Suc (count_list s c)"
  by (induction s) (auto split: list.splits simp: split_not_Nil)

lemma split_segments_no_sep: "x \<in> set (split c s) \<Longrightarrow> c \<notin> set x"
  by (induction s arbitrary: x) (auto split: if_splits list.splits)

lemma takeWhile_sep: "c \<notin> set a \<Longrightarrow> takeWhile (\<lambda>x. x \<noteq> c) (a @ c # b) = a"
  by (induction a) auto

lemma dropWhile_sep: "c \<notin> set a \<Longrightarrow> dropWhile (\<lambda>x. x \<noteq> c) (a @ c # b) = c # b"
  by (induction a) auto

lemma split_takeWhile_dropWhile:
  assumes "c \<in> set s"
  shows "split c s = takeWhile (\<lambda>x. x \<noteq> c) s # split c (tl (dropWhile (\<lambda>x. x \<noteq> c) s))"
proof -
  from assms obtain a b where s: "s = a @ c # b" and a: "c \<notin> set a"
    by (meson split_list_first)
  show ?thesis
    unfolding s using a by (simp add: takeWhile_sep dropWhile_sep split_append_sep)
qed

lemma count_one_mem: "count_list s c = 1 \<Longrightarrow> c \<in> set s"
  by (metis count_list_0_iff zero_neq_one)

lemma split_single: "length (split c s) = 1 \<Longrightarrow> split c s = [s]"
proof -
  assume "length (split c s) = 1"
  then have "count_list s c = 0" by (simp add: length_split)
  then have "c \<notin> set s" by (simp add: count_list_0_iff)
  then show ?thesis by (rule split_no_sep)
qed

lemma split_two_iff:
  "(split c s = [a, b]) \<longleftrightarrow>
   (count_list s c = 1 \<and> a = takeWhile (\<lambda>x. x \<noteq> c) s \<and> b = tl (dropWhile (\<lambda>x. x \<noteq> c) s))"
  (is "?L \<longleftrightarrow> ?R")
proof
  assume h: ?L
  have n: "count_list s c = 1" using length_split[of c s] h by simp
  then have cs: "c \<in> set s" by (rule count_one_mem)
  let ?r = "tl (dropWhile (\<lambda>x. x \<noteq> c) s)"
  from split_takeWhile_dropWhile[OF cs] h
  have a: "a = takeWhile (\<lambda>x. x \<noteq> c) s" and r: "split c ?r = [b]" by simp_all
  from r have "length (split c ?r) = 1" by simp
  then have "split c ?r = [?r]" by (rule split_single)
  with r have "b = ?r" by simp
  with n a show ?R by simp
next
  assume h: ?R
  then have cs: "c \<in> set s" by (simp add: count_one_mem)
  from split_takeWhile_dropWhile[OF cs]
  have e: "split c s = a # split c b" using h by simp
  have "length (split c b) = 1" using length_split[of c s] h e by simp
  then have "split c b = [b]" by (rule split_single)
  then show ?L using e by simp
qed

lemma join_Cons: "xs \<noteq> [] \<Longrightarrow> join sep (x # xs) = x @ sep @ join sep xs"
  by (cases xs) auto

lemma split_join:
  "segs \<noteq> [] \<Longrightarrow> (\<And>x. x \<in> set segs \<Longrightarrow> c \<notin> set x) \<Longrightarrow> split c (join [c] segs) = segs"
proof (induction segs)
  case Nil
  then show ?case by simp
next
  case (Cons x xs)
  show ?case
  proof (cases "xs = []")
    case True
    with Cons.prems show ?thesis by (simp add: split_no_sep)
  next
    case False
    have "split c (join [c] (x # xs)) = split c (x @ c # join [c] xs)"
      using False by (simp add: join_Cons)
    also have "\<dots> = x # split c (join [c] xs)"
      using Cons.prems by (simp add: split_append_sep)
    also have "\<dots> = x # xs"
      using Cons.IH False Cons.prems by simp
    finally show ?thesis .
  qed
qed



lemma upper_char_cases:
  "upper_char c = c \<or> upper_char c \<in> set ''ABCDEFGHIJKLMNOPQRSTUVWXYZ''"
proof (cases "map_of (zip ''abcdefghijklmnopqrstuvwxyz'' ''ABCDEFGHIJKLMNOPQRSTUVWXYZ'') c")
  case None
  then have "upper_char c = c" by (simp only: upper_char_def option.case)
  then show ?thesis by (rule disjI1)
next
  case (Some u)
  then have "(c, u) \<in> set (zip ''abcdefghijklmnopqrstuvwxyz'' ''ABCDEFGHIJKLMNOPQRSTUVWXYZ'')"
    by (rule map_of_SomeD)
  then have "u \<in> set ''ABCDEFGHIJKLMNOPQRSTUVWXYZ''"
    by (rule set_zip_rightD)
  moreover have "upper_char c = u" using Some by (simp only: upper_char_def option.case)
  ultimately show ?thesis by simp
qed

lemma upper_char_not_dot: "c \<noteq> CHR ''.'' \<Longrightarrow> upper_char c \<noteq> CHR ''.''"
  using upper_char_cases[of c] by auto

lemma upper_char_not_hyphen: "c \<noteq> CHR ''-'' \<Longrightarrow> upper_char c \<noteq> CHR ''-''"
  using upper_char_cases[of c] by auto

lemma upper_no_dot: "CHR ''.'' \<notin> set s \<Longrightarrow> CHR ''.'' \<notin> set (upper s)"
proof -
  assume h: "CHR ''.'' \<notin> set s"
  have "upper_char x \<noteq> CHR ''.''" if "x \<in> set s" for x
    using that h by (intro upper_char_not_dot) auto
  then show ?thesis unfolding upper_def by force
qed

lemma split_max1_first: "split_max1 c s ! 0 = takeWhile (\<lambda>x. x \<noteq> c) s"
proof (cases "dropWhile (\<lambda>x. x \<noteq> c) s")
  case Nil
  then have "takeWhile (\<lambda>x. x \<noteq> c) s = s"
    by (metis append_Nil2 takeWhile_dropWhile_id)
  with Nil show ?thesis unfolding split_max1_def by (simp only: list.case nth_Cons_0)
next
  case (Cons y ys)
  then show ?thesis unfolding split_max1_def by (simp only: list.case nth_Cons_0)
qed



lemma endswith_one: "endswith s [c] \<longleftrightarrow> s \<noteq> [] \<and> last s = c"
proof (cases s rule: rev_cases)
  case Nil
  then show ?thesis by (simp add: endswith_def)
next
  case (snoc ys y)
  then show ?thesis by (simp add: endswith_def)
qed

lemma startswith_one: "startswith s [c] \<longleftrightarrow> s \<noteq> [] \<and> hd s = c"
  by (cases s) (auto simp: startswith_def)

lemma earmuffs_eq:
  "(if startswith p ''*'' \<and> endswith p ''*'' \<and> p \<notin> {''*'', ''**''}
    then upper (butlast (tl p)) else p) = rule_earmuffs p"
  by (simp add: rule_earmuffs_def endswith_one startswith_one)

lemma hyphens_eq:
  "(if CHR ''-'' \<in> set p \<and> p \<noteq> ''-'' then replace CHR ''-'' CHR ''_'' p else p) = rule_hyphens p"
  by (simp add: rule_hyphens_def replace_def)

lemma question_eq:
  "(if endswith p ''?'' \<and> p \<noteq> ''?'' then ''is_'' @ butlast p else p) = rule_question p"
  by (simp add: rule_question_def endswith_one)

lemma bang_eq:
  "(if endswith p ''!'' \<and> p \<noteq> ''!'' then butlast p @ ''_bang'' else p) = rule_bang p"
  by (simp add: rule_bang_def endswith_one)

lemma mangle_refines: "hy_symbol_mangle s = mangle_spec s"
  unfolding hy_symbol_mangle_def Let_def earmuffs_eq hyphens_eq question_eq bang_eq mangle_spec_def
  by (rule refl)


lemma rule_earmuffs_no_dot: "CHR ''.'' \<notin> set s \<Longrightarrow> CHR ''.'' \<notin> set (rule_earmuffs s)"
proof -
  assume h: "CHR ''.'' \<notin> set s"
  then have "CHR ''.'' \<notin> set (butlast (tl s))"
    by (metis in_set_butlastD list.set_sel(2) tl_Nil)
  then show ?thesis using h by (simp add: rule_earmuffs_def upper_no_dot)
qed

lemma rule_hyphens_no_dot: "CHR ''.'' \<notin> set s \<Longrightarrow> CHR ''.'' \<notin> set (rule_hyphens s)"
  by (auto simp: rule_hyphens_def)

lemma rule_question_no_dot: "CHR ''.'' \<notin> set s \<Longrightarrow> CHR ''.'' \<notin> set (rule_question s)"
  by (auto simp: rule_question_def dest: in_set_butlastD)

lemma rule_bang_no_dot: "CHR ''.'' \<notin> set s \<Longrightarrow> CHR ''.'' \<notin> set (rule_bang s)"
  by (auto simp: rule_bang_def dest: in_set_butlastD)

lemma mangle_no_dot: "CHR ''.'' \<notin> set s \<Longrightarrow> CHR ''.'' \<notin> set (hy_symbol_mangle s)"
  unfolding mangle_refines mangle_spec_def
  by (intro rule_bang_no_dot rule_question_no_dot rule_hyphens_no_dot rule_earmuffs_no_dot)

lemma rule_hyphens_result: "CHR ''-'' \<notin> set (rule_hyphens s) \<or> rule_hyphens s = ''-''"
  by (auto simp: rule_hyphens_def)

lemma rule_question_keeps: "CHR ''-'' \<notin> set s \<or> s = ''-'' \<Longrightarrow>
  CHR ''-'' \<notin> set (rule_question s) \<or> rule_question s = ''-''"
  by (auto simp: rule_question_def dest: in_set_butlastD)

lemma rule_bang_keeps: "CHR ''-'' \<notin> set s \<or> s = ''-'' \<Longrightarrow>
  CHR ''-'' \<notin> set (rule_bang s) \<or> rule_bang s = ''-''"
  by (auto simp: rule_bang_def dest: in_set_butlastD)

lemma mangle_hyphen: "CHR ''-'' \<notin> set (hy_symbol_mangle s) \<or> hy_symbol_mangle s = ''-''"
  unfolding mangle_refines mangle_spec_def
  by (intro rule_bang_keeps rule_question_keeps rule_hyphens_result)

section \<open>Facts about the classifier\<close>

lemma case_not_two:
  "length xs \<noteq> 2 \<Longrightarrow> (case xs of [a, b] \<Rightarrow> F a b | _ \<Rightarrow> None) = None"
  by (auto split: list.splits)

lemma fraction_split_eq:
  "(if c \<in> set obj then (case split c obj of [lhs, rhs] \<Rightarrow> F lhs rhs | _ \<Rightarrow> None) else None) =
   (if count_list obj c = 1
    then F (takeWhile (\<lambda>x. x \<noteq> c) obj) (tl (dropWhile (\<lambda>x. x \<noteq> c) obj)) else None)"
proof (cases "count_list obj c = 1")
  case True
  then have m: "c \<in> set obj" by (rule count_one_mem)
  have "split c obj = [takeWhile (\<lambda>x. x \<noteq> c) obj, tl (dropWhile (\<lambda>x. x \<noteq> c) obj)]"
    using True by (simp add: split_two_iff)
  then show ?thesis using True m by simp
next
  case False
  then have "length (split c obj) \<noteq> 2" by (simp add: length_split)
  then have "(case split c obj of [a, b] \<Rightarrow> F a b | _ \<Rightarrow> None) = None"
    by (rule case_not_two)
  then show ?thesis using False by simp
qed

lemma symbol_like_spec: "symbol_like h t = classify_spec h t"
proof -
  have fr: "(if CHR ''/'' \<in> set t then
              (case split CHR ''/'' t of
                 [lhs, rhs] \<Rightarrow>
                   (case new_HyInteger h lhs of
                      None \<Rightarrow> None
                    | Some a \<Rightarrow>
                        (case new_HyInteger h rhs of
                           None \<Rightarrow> None
                         | Some b \<Rightarrow>
                             Some (HyExpression None
                               [HySymbol None ''fraction'', HyInteger None a, HyInteger None b])))
               | _ \<Rightarrow> None)
            else None) = attempt_fraction h t"
    unfolding fraction_split_eq attempt_fraction_def
    by (simp split: option.splits)
  show ?thesis
    unfolding symbol_like_def fr classify_spec_def
    by (cases "new_HyInteger h t"; cases "attempt_fraction h t"; cases "new_HyFloat h t";
        cases "new_HyComplex h t"; cases "t = ''j''")
       (auto simp: attempt_integer_def attempt_float_def attempt_complex_def attempt_keyword_def
        startswith_one)
qed

lemma symbol_like_not_symbol: "symbol_like h t = Some v \<Longrightarrow> set_span s v \<noteq> HySymbol sp n"
  unfolding symbol_like_def
  by (auto split: option.splits if_splits list.splits)

lemma symbol_like_names: "symbol_like h t = Some v \<Longrightarrow> symbol_names v \<subseteq> {''fraction''}"
  unfolding symbol_like_def
  by (auto split: option.splits if_splits list.splits)

lemma t_identifier_cases:
  "t_identifier h tok =
     (case symbol_like h (getstr tok) of
        Some v \<Rightarrow> Inr (set_span (token_span tok) v)
      | None \<Rightarrow>
          if CHR ''.'' \<in> set (getstr tok) \<and>
             symbol_like h (takeWhile (\<lambda>x. x \<noteq> CHR ''.'') (getstr tok)) \<noteq> None
          then Inl (LexException no_attribute (lineno (source_pos tok)) (colno (source_pos tok)))
          else Inr (HySymbol (Some (token_span tok))
                      (join ''.'' (map hy_symbol_mangle (split CHR ''.'' (getstr tok))))))"
  unfolding t_identifier_def set_boundaries_def token_span_def split_max1_first Let_def
  by (simp split: option.splits)

lemma t_identifier_symbol:
  "t_identifier h tok = Inr (HySymbol sp n) \<Longrightarrow>
   n = join ''.'' (map hy_symbol_mangle (split CHR ''.'' (getstr tok)))"
  unfolding t_identifier_cases
  by (auto split: option.splits if_splits dest: symbol_like_not_symbol)

lemma mangled_name_segments:
  "split CHR ''.'' (join ''.'' (map hy_symbol_mangle (split CHR ''.'' t))) =
   map hy_symbol_mangle (split CHR ''.'' t)"
proof (rule split_join)
  show "map hy_symbol_mangle (split CHR ''.'' t) \<noteq> []" by (simp add: split_not_Nil)
next
  fix x assume "x \<in> set (map hy_symbol_mangle (split CHR ''.'' t))"
  then obtain y where y: "y \<in> set (split CHR ''.'' t)" and x: "x = hy_symbol_mangle y" by auto
  from y have "CHR ''.'' \<notin> set y" by (rule split_segments_no_sep)
  then show "CHR ''.'' \<notin> set x" unfolding x by (rule mangle_no_dot)
qed

lemma mangled_name_hyphen_free:
  "hyphen_free_segments (join ''.'' (map hy_symbol_mangle (split CHR ''.'' t)))"
  unfolding hyphen_free_segments_def mangled_name_segments
  using mangle_hyphen by (auto simp: list_all_iff)

lemma hyphen_free_fraction: "hyphen_free_segments ''fraction''"
  by (simp add: hyphen_free_segments_def)

lemma symbol_names_set_span [simp]: "symbol_names (set_span s v) = symbol_names v"
  by (cases v) simp_all

lemma t_identifier_names:
  "t_identifier h tok = Inr v \<Longrightarrow> n \<in> symbol_names v \<Longrightarrow> hyphen_free_segments n"
  unfolding t_identifier_cases
  using symbol_like_names[of h "getstr tok"] mangled_name_hyphen_free[of "getstr tok"] hyphen_free_fraction
  by (auto split: option.splits if_splits)

section \<open>Facts about the productions\<close>

lemma reject_find:
  "reject_spurious_dots ls =
     (case find is_dot (concat ls) of None \<Rightarrow> Inr () | Some tok \<Rightarrow> Inl (dot_error tok))"
  by (induction ls rule: reject_spurious_dots.induct) (auto simp: dot_error_def split: option.splits)

lemma span_of_set_span [simp]: "span_of (set_span s v) = Some s"
  by (cases v) simp_all

lemma set_boundaries_Inl [simp]: "set_boundaries p0 pl (Inl e) = Inl e"
  by (simp add: set_boundaries_def)

lemma set_boundaries_pair [simp]:
  "set_boundaries p0 (Some p2) (Inr v) = Inr (set_span (plain_span p0 p2) v)"
  by (simp add: set_boundaries_def plain_span_def Let_def)

lemma set_boundaries_single [simp]:
  "set_boundaries p0 None (Inr v) = Inr (set_span (token_span p0) v)"
  by (simp add: set_boundaries_def token_span_def Let_def)

lemma set_boundaries_span: "set_boundaries p0 pl r = Inr v \<Longrightarrow> span_of v \<noteq> None"
  by (cases r; cases pl) auto

lemma set_quote_boundaries_span: "set_quote_boundaries p0 p1 r = Inr v \<Longrightarrow> span_of v \<noteq> None"
  by (cases r) (auto simp: set_quote_boundaries_def Let_def split: option.splits)

lemma paren_plain:
  assumes "\<not> (3 \<le> length cont \<and> is_dot (cont ! (length cont - 2)))"
  shows "paren p0 cont p2 =
     (case find is_dot (tl cont) of
        None \<Rightarrow> Inr (HyExpression (Some (plain_span p0 p2)) cont)
      | Some tok \<Rightarrow> Inl (dot_error tok))"
  using assms by (subst paren.simps) (auto simp: reject_find split: option.splits)

lemma paren_dotted_reject:
  assumes "xs \<noteq> []" "is_dot d" "find is_dot (xs @ [z]) = Some tok"
  shows "paren p0 (xs @ [d, z]) p2 = Inl (dot_error tok)"
proof -
  from assms(1) have "Suc 0 \<le> length xs" by (cases xs) simp_all
  then show ?thesis
    using assms by (subst paren.simps) (simp add: reject_find nth_append)
qed

lemma paren_dotted_cons:
  assumes "xs \<noteq> []" "is_dot d" "find is_dot (xs @ [z]) = None"
  shows "paren p0 (xs @ [d, z]) p2 = Inr (foldr (HyCons (Some (plain_span p0 p2))) xs z)"
  using assms
proof (induction xs)
  case Nil
  then show ?case by simp
next
  case (Cons x xs)
  show ?case
  proof (cases "xs = []")
    case True
    with Cons.prems show ?thesis
      by (subst paren.simps) (simp add: reject_find split: if_splits)
  next
    case False
    from Cons.prems have nf: "find is_dot (xs @ [z]) = None" by (simp split: if_splits)
    have ih: "paren p0 (xs @ [d, z]) p2 = Inr (foldr (HyCons (Some (plain_span p0 p2))) xs z)"
      using Cons.IH False Cons.prems(2) nf by simp
    have len: "length xs \<noteq> 0" using False by simp
    show ?thesis
      using Cons.prems False ih len
      by (subst paren.simps) (simp add: reject_find nth_append split: if_splits)
  qed
qed

lemma paren_span: "paren p0 cont p2 = Inr v \<Longrightarrow> span_of v \<noteq> None"
  by (subst (asm) paren.simps) (rule set_boundaries_span)

lemma t_identifier_span: "t_identifier h t = Inr v \<Longrightarrow> span_of v \<noteq> None"
  unfolding t_identifier_def by (rule set_boundaries_span)

lemma t_string_span: "t_string h t = Inr v \<Longrightarrow> span_of v \<noteq> None"
  unfolding t_string_def by (rule set_boundaries_span)

lemma t_bracket_string_span: "t_bracket_string h t = Inr v \<Longrightarrow> span_of v \<noteq> None"
  unfolding t_bracket_string_def by (rule set_boundaries_span)

lemma reduce_spans:
  "reduce_term h t = Inr v \<Longrightarrow> span_of v \<noteq> None"
  "reduce_list_contents h c = Inr cont \<Longrightarrow> list_all (\<lambda>v. span_of v \<noteq> None) cont"
  "reduce_discarded h ds = Inr u \<Longrightarrow> True"
proof (induction t and c and ds arbitrary: v and cont and u)
qed (auto split: sum.splits
      simp: term_pass_def term_discard_def list_contents_def list_contents_single_def
        list_contents_empty_def t_partial_string_def
        empty_paren_def t_dict_def empty_dict_def t_list_def t_empty_list_def t_set_def
        empty_set_def term_quote_def term_quasiquote_def term_unquote_def
        term_unquote_splice_def term_hashstars_def hash_other_def
      dest: paren_span t_identifier_span t_string_span t_bracket_string_span
        set_quote_boundaries_span)

lemma dot_error_spanned: "span_of tok = Some s \<Longrightarrow>
  dot_error tok = LexException ''Malformed dotted list'' (start_line s) (start_column s)"
  by (simp add: dot_error_def)

lemma find_in_set: "find P xs = Some x \<Longrightarrow> x \<in> set xs"
  by (auto simp: find_Some_iff)

lemma reduce_paren:
  "reduce_list_contents h c = Inr cont \<Longrightarrow> reduce_term h (Term_paren p0 c p2) = paren p0 cont p2"
  by (cases "paren p0 cont p2") (simp_all add: term_pass_def)

lemma dotted_decompose:
  assumes "3 \<le> length cont"
  shows "cont = take (length cont - 2) cont @ [cont ! (length cont - 2), last cont]"
proof -
  from assms obtain ys z where c: "cont = ys @ [z]"
    by (metis length_0_conv not_numeral_le_zero rev_exhaust)
  with assms have "ys \<noteq> []" by auto
  then obtain xs d where y: "ys = xs @ [d]" by (metis rev_exhaust)
  show ?thesis unfolding c y by (simp add: nth_append)
qed

lemma spanned_items:
  assumes "reduce_list_contents h c = Inr cont" "tok \<in> set cont"
  shows "\<exists>s. span_of tok = Some s"
  using reduce_spans(2)[OF assms(1)] assms(2) by (auto simp: list_all_iff)


lemma paren_single:
  "paren p0 [v] p2 = Inr (HyExpression (Some (plain_span p0 p2)) [v])"
  by (simp add: paren_plain)

lemma paren_empty:
  "paren p0 [] p2 = Inr (HyExpression (Some (plain_span p0 p2)) [])"
  by (simp add: paren_plain)


section \<open>Facts about the symbols in a result\<close>

lemma names_foldr_cons:
  "symbol_names (foldr (HyCons sp) xs z) = (\<Union>x \<in> set xs. symbol_names x) \<union> symbol_names z"
  by (induction xs) auto

lemma paren_names:
  assumes "paren p0 cont p2 = Inr v"
  shows "symbol_names v \<subseteq> (\<Union>x \<in> set cont. symbol_names x)"
proof (cases "3 \<le> length cont \<and> is_dot (cont ! (length cont - 2))")
  case True
  let ?xs = "take (length cont - 2) cont"
  let ?d = "cont ! (length cont - 2)"
  let ?z = "last cont"
  from True have dec: "cont = ?xs @ [?d, ?z]" by (intro dotted_decompose) simp
  from True have ne: "?xs \<noteq> []" by auto
  show ?thesis
  proof (cases "find is_dot (?xs @ [?z])")
    case None
    with ne True have "paren p0 (?xs @ [?d, ?z]) p2 =
        Inr (foldr (HyCons (Some (plain_span p0 p2))) ?xs ?z)"
      by (intro paren_dotted_cons) simp_all
    with dec assms have v: "v = foldr (HyCons (Some (plain_span p0 p2))) ?xs ?z" by simp
    have "symbol_names v \<subseteq> (\<Union>x \<in> set (?xs @ [?d, ?z]). symbol_names x)"
      unfolding v names_foldr_cons by auto
    with dec show ?thesis by simp
  next
    case (Some tok)
    with ne True have "paren p0 (?xs @ [?d, ?z]) p2 = Inl (dot_error tok)"
      by (intro paren_dotted_reject) simp_all
    with dec assms show ?thesis by simp
  qed
next
  case False
  with assms show ?thesis
    by (auto simp: paren_plain split: option.splits)
qed

lemma set_quote_boundaries_names:
  "set_quote_boundaries p0 p1 (Inr e) = Inr v \<Longrightarrow> symbol_names v = symbol_names e"
  by (auto simp: set_quote_boundaries_def Let_def split: option.splits)

lemma set_quote_boundaries_Inl [simp]: "set_quote_boundaries p0 p1 (Inl e) = Inl e"
  by (simp add: set_quote_boundaries_def)

lemma quote_family_names:
  "term_quote q p1 = Inr v \<Longrightarrow> symbol_names v = insert ''quote'' (symbol_names p1)"
  "term_quasiquote q p1 = Inr v \<Longrightarrow> symbol_names v = insert ''quasiquote'' (symbol_names p1)"
  "term_unquote q p1 = Inr v \<Longrightarrow> symbol_names v = insert ''unquote'' (symbol_names p1)"
  "term_unquote_splice q p1 = Inr v \<Longrightarrow> symbol_names v = insert ''unquote_splice'' (symbol_names p1)"
  "hash_other q p1 = Inr v \<Longrightarrow> symbol_names v = insert ''dispatch_tag_macro'' (symbol_names p1)"
  unfolding term_quote_def term_quasiquote_def term_unquote_def term_unquote_splice_def
    hash_other_def Let_def
  by (drule set_quote_boundaries_names, simp)+

lemma hashstars_names:
  assumes "term_hashstars q p1 = Inr v"
  shows "symbol_names v = insert ''unpack_iterable'' (symbol_names p1) \<or>
         symbol_names v = insert ''unpack_mapping'' (symbol_names p1)"
proof (cases "length (tl (getstr q)) = 1")
  case True
  with assms have "set_quote_boundaries q p1
      (Inr (HyExpression None [HySymbol None ''unpack_iterable'', p1])) = Inr v"
    by (simp add: term_hashstars_def)
  from set_quote_boundaries_names[OF this] show ?thesis by simp
next
  case False
  show ?thesis
  proof (cases "length (tl (getstr q)) = 2")
    case True
    with assms have "set_quote_boundaries q p1
        (Inr (HyExpression None [HySymbol None ''unpack_mapping'', p1])) = Inr v"
      by (simp add: term_hashstars_def)
    from set_quote_boundaries_names[OF this] show ?thesis by simp
  next
    case f2: False
    with False assms show ?thesis by (simp add: term_hashstars_def)
  qed
qed

lemma fixed_names_hyphen_free:
  "hyphen_free_segments ''quote''" "hyphen_free_segments ''quasiquote''"
  "hyphen_free_segments ''unquote''" "hyphen_free_segments ''unquote_splice''"
  "hyphen_free_segments ''unpack_iterable''" "hyphen_free_segments ''unpack_mapping''"
  "hyphen_free_segments ''dispatch_tag_macro''"
  by (simp_all add: hyphen_free_segments_def split_no_sep)

lemma string_names:
  "t_string h t = Inr v \<Longrightarrow> symbol_names v = {}"
  "t_bracket_string h t = Inr v \<Longrightarrow> symbol_names v = {}"
  unfolding t_string_def t_bracket_string_def
  by (auto split: sum.splits pystr.splits option.splits)

lemma bracket_names:
  "t_dict l cont r = Inr v \<Longrightarrow> symbol_names v = (\<Union>x \<in> set cont. symbol_names x)"
  "t_list l cont r = Inr v \<Longrightarrow> symbol_names v = (\<Union>x \<in> set cont. symbol_names x)"
  "t_set l cont r = Inr v \<Longrightarrow> symbol_names v = (\<Union>x \<in> set cont. symbol_names x)"
  "empty_paren l r = Inr v \<Longrightarrow> symbol_names v = {}"
  "empty_dict l r = Inr v \<Longrightarrow> symbol_names v = {}"
  "t_empty_list l r = Inr v \<Longrightarrow> symbol_names v = {}"
  "empty_set l r = Inr v \<Longrightarrow> symbol_names v = {}"
  unfolding t_dict_def t_list_def t_set_def empty_paren_def empty_dict_def t_empty_list_def
    empty_set_def
  by auto

lemma reduce_names:
  "reduce_term h t = Inr v \<Longrightarrow> n \<in> symbol_names v \<Longrightarrow> hyphen_free_segments n"
  "reduce_list_contents h c = Inr cont \<Longrightarrow> x \<in> set cont \<Longrightarrow> n \<in> symbol_names x \<Longrightarrow>
     hyphen_free_segments n"
  "reduce_discarded h ds = Inr u \<Longrightarrow> True"
proof (induction t and c and ds arbitrary: v n and cont x n and u)
  case (Term_identifier t)
  then show ?case
    by (auto simp: term_pass_def split: sum.splits dest: t_identifier_names)
next
  case (Term_paren l c r)
  from Term_paren.prems obtain cont where c: "reduce_list_contents h c = Inr cont"
    and p: "paren l cont r = Inr v"
    by (auto simp: term_pass_def split: sum.splits)
  from paren_names[OF p] Term_paren.prems(2) obtain x where "x \<in> set cont" "n \<in> symbol_names x"
    by auto
  with Term_paren.IH[OF c] show ?case by blast
next
  case (Term_empty_paren l r)
  then show ?case by (auto simp: term_pass_def split: sum.splits dest!: bracket_names)
next
  case (Term_dict l c r)
  from Term_dict.prems obtain cont where c: "reduce_list_contents h c = Inr cont"
    and p: "t_dict l cont r = Inr v"
    by (auto simp: term_pass_def split: sum.splits)
  from bracket_names(1)[OF p] Term_dict.prems(2) obtain x where "x \<in> set cont" "n \<in> symbol_names x"
    by auto
  with Term_dict.IH[OF c] show ?case by blast
next
  case (Term_empty_dict l r)
  then show ?case by (auto simp: term_pass_def split: sum.splits dest!: bracket_names)
next
  case (Term_list l c r)
  from Term_list.prems obtain cont where c: "reduce_list_contents h c = Inr cont"
    and p: "t_list l cont r = Inr v"
    by (auto simp: term_pass_def split: sum.splits)
  from bracket_names(2)[OF p] Term_list.prems(2) obtain x where "x \<in> set cont" "n \<in> symbol_names x"
    by auto
  with Term_list.IH[OF c] show ?case by blast
next
  case (Term_empty_list l r)
  then show ?case by (auto simp: term_pass_def split: sum.splits dest!: bracket_names)
next
  case (Term_set l c r)
  from Term_set.prems obtain cont where c: "reduce_list_contents h c = Inr cont"
    and p: "t_set l cont r = Inr v"
    by (auto simp: term_pass_def split: sum.splits)
  from bracket_names(3)[OF p] Term_set.prems(2) obtain x where "x \<in> set cont" "n \<in> symbol_names x"
    by auto
  with Term_set.IH[OF c] show ?case by blast
next
  case (Term_empty_set l r)
  then show ?case by (auto simp: term_pass_def split: sum.splits dest!: bracket_names)
next
  case (Term_string t)
  then show ?case by (auto simp: term_pass_def split: sum.splits dest!: string_names)
next
  case (Term_partial_string t)
  then show ?case by (simp add: t_partial_string_def)
next
  case (Term_bracket_string t)
  then show ?case by (auto simp: term_pass_def split: sum.splits dest!: string_names)
next
  case (Term_discard d a b)
  from Term_discard.prems obtain p1 where "reduce_term h a = Inr p1" and "reduce_term h b = Inr v"
    by (auto simp: term_discard_def split: sum.splits)
  with Term_discard.IH(2) Term_discard.prems(2) show ?case by blast
next
  case (Term_quote q a)
  from Term_quote.prems obtain p1 where a: "reduce_term h a = Inr p1" and v: "term_quote q p1 = Inr v"
    by (auto split: sum.splits)
  from quote_family_names(1)[OF v] Term_quote.prems(2)
  have "n = ''quote'' \<or> n \<in> symbol_names p1" by auto
  with Term_quote.IH[OF a] show ?case by (auto simp: fixed_names_hyphen_free)
next
  case (Term_quasiquote q a)
  from Term_quasiquote.prems obtain p1 where a: "reduce_term h a = Inr p1"
    and v: "term_quasiquote q p1 = Inr v"
    by (auto split: sum.splits)
  from quote_family_names(2)[OF v] Term_quasiquote.prems(2)
  have "n = ''quasiquote'' \<or> n \<in> symbol_names p1" by auto
  with Term_quasiquote.IH[OF a] show ?case by (auto simp: fixed_names_hyphen_free)
next
  case (Term_unquote q a)
  from Term_unquote.prems obtain p1 where a: "reduce_term h a = Inr p1"
    and v: "term_unquote q p1 = Inr v"
    by (auto split: sum.splits)
  from quote_family_names(3)[OF v] Term_unquote.prems(2)
  have "n = ''unquote'' \<or> n \<in> symbol_names p1" by auto
  with Term_unquote.IH[OF a] show ?case by (auto simp: fixed_names_hyphen_free)
next
  case (Term_unquote_splice q a)
  from Term_unquote_splice.prems obtain p1 where a: "reduce_term h a = Inr p1"
    and v: "term_unquote_splice q p1 = Inr v"
    by (auto split: sum.splits)
  from quote_family_names(4)[OF v] Term_unquote_splice.prems(2)
  have "n = ''unquote_splice'' \<or> n \<in> symbol_names p1" by auto
  with Term_unquote_splice.IH[OF a] show ?case by (auto simp: fixed_names_hyphen_free)
next
  case (Term_hashstars q a)
  from Term_hashstars.prems obtain p1 where a: "reduce_term h a = Inr p1"
    and v: "term_hashstars q p1 = Inr v"
    by (auto split: sum.splits)
  from hashstars_names[OF v] Term_hashstars.prems(2)
  have "n = ''unpack_iterable'' \<or> n = ''unpack_mapping'' \<or> n \<in> symbol_names p1" by auto
  with Term_hashstars.IH[OF a] show ?case by (auto simp: fixed_names_hyphen_free)
next
  case (Term_hash_other q a)
  from Term_hash_other.prems obtain p1 where a: "reduce_term h a = Inr p1"
    and v: "hash_other q p1 = Inr v"
    by (auto split: sum.splits)
  from quote_family_names(5)[OF v] Term_hash_other.prems(2)
  have "n = ''dispatch_tag_macro'' \<or> n \<in> symbol_names p1" by auto
  with Term_hash_other.IH[OF a] show ?case by (auto simp: fixed_names_hyphen_free)
next
  case (List_contents a c)
  from List_contents.prems obtain p0 p1 where a: "reduce_term h a = Inr p0"
    and c: "reduce_list_contents h c = Inr p1" and e: "cont = p0 # p1"
    by (auto simp: list_contents_def split: sum.splits)
  from e List_contents.prems(2) have "x = p0 \<or> x \<in> set p1" by simp
  with List_contents.IH(1)[OF a] List_contents.IH(2)[OF c] List_contents.prems(3)
  show ?case by blast
next
  case (List_contents_single a)
  from List_contents_single.prems obtain p0 where a: "reduce_term h a = Inr p0" and e: "cont = [p0]"
    by (auto simp: list_contents_single_def split: sum.splits)
  with List_contents_single.IH[OF a] List_contents_single.prems show ?case by simp
next
  case (List_contents_empty d a ds)
  then show ?case by (auto simp: list_contents_empty_def split: sum.splits)
next
  case (Discarded d a ds)
  show ?case by simp
next
  case Discarded_nil
  show ?case by simp
qed

lemma read_plain_symbol:
  assumes "getstr u = s" "symbol_like h s = None" "CHR ''.'' \<notin> set s" "hy_symbol_mangle s = s"
  shows "t_identifier h u = Inr (HySymbol (Some (token_span u)) s)"
  using assms by (simp add: t_identifier_cases split_no_sep)

lemma mangle_unpack:
  "hy_symbol_mangle ''unpack_iterable'' = ''unpack_iterable''"
  "hy_symbol_mangle ''unpack_mapping'' = ''unpack_mapping''"
  unfolding mangle_refines mangle_spec_def
  by (simp_all add: rule_earmuffs_def rule_hyphens_def rule_question_def rule_bang_def)

lemma paren_pair:
  "\<not> is_dot b \<Longrightarrow> paren p0 [a, b] p2 = Inr (HyExpression (Some (plain_span p0 p2)) [a, b])"
  by (simp add: paren_plain)

lemma hashstars_stars:
  "getstr m = CHR ''#'' # replicate n CHR ''*'' \<Longrightarrow> length (tl (getstr m)) = n"
  by simp

lemma term_hashstars_result:
  assumes "span_of vx = Some s"
  shows "term_hashstars m vx =
     (if length (tl (getstr m)) = 1 then
        Inr (HyExpression (Some (quote_span m s)) [HySymbol None ''unpack_iterable'', vx])
      else if length (tl (getstr m)) = 2 then
        Inr (HyExpression (Some (quote_span m s)) [HySymbol None ''unpack_mapping'', vx])
      else Inl (LexException too_many_stars (lineno (source_pos m)) (colno (source_pos m))))"
  using assms by (simp add: term_hashstars_def set_quote_boundaries_def quote_span_def Let_def)

section \<open>Evaluating examples\<close>

lemmas decimal_defs =
  decimal_host_def decimal_int_def decimal_float_def decimal_complex_def unsigned_def
  is_digit_def digits_value_def digit_value_def startswith_def ident_def mark_def

lemmas spec_defs =
  classify_spec_def attempt_integer_def attempt_fraction_def attempt_float_def
  attempt_complex_def attempt_keyword_def mangle_spec_def rule_earmuffs_def rule_hyphens_def
  rule_question_def rule_bang_def token_span_def upper_def upper_char_def

lemmas eval_defs =
  t_identifier_def symbol_like_def set_boundaries_def split_max1_def hy_symbol_mangle_def
  endswith_def replace_def Let_def

text \<open>Plain identifiers read at the example host, at any position.\<close>

lemma read_a: "t_identifier decimal_host (ident ''a'' l c) =
  Inr (HySymbol (Some \<lparr>start_line = l, start_column = c, end_line = l, end_column = c + 1\<rparr>) ''a'')"
  by (simp add: eval_defs decimal_defs)

lemma read_b: "t_identifier decimal_host (ident ''b'' l c) =
  Inr (HySymbol (Some \<lparr>start_line = l, start_column = c, end_line = l, end_column = c + 1\<rparr>) ''b'')"
  by (simp add: eval_defs decimal_defs)

lemma read_c: "t_identifier decimal_host (ident ''c'' l c) =
  Inr (HySymbol (Some \<lparr>start_line = l, start_column = c, end_line = l, end_column = c + 1\<rparr>) ''c'')"
  by (simp add: eval_defs decimal_defs)

lemma read_x: "t_identifier decimal_host (ident ''x'' l c) =
  Inr (HySymbol (Some \<lparr>start_line = l, start_column = c, end_line = l, end_column = c + 1\<rparr>) ''x'')"
  by (simp add: eval_defs decimal_defs)

lemma read_dot: "t_identifier decimal_host (ident ''.'' l c) =
  Inr (HySymbol (Some \<lparr>start_line = l, start_column = c, end_line = l, end_column = c + 1\<rparr>) ''.'')"
  by (simp add: eval_defs decimal_defs)

lemma read_a_hyphen: "t_identifier decimal_host (ident ''a.-'' l c) =
  Inr (HySymbol (Some \<lparr>start_line = l, start_column = c, end_line = l, end_column = c + 3\<rparr>) ''a.-'')"
  by (simp add: eval_defs decimal_defs)

lemmas read_simps = read_a read_b read_c read_x read_dot term_pass_def list_contents_def
  list_contents_single_def list_contents_empty_def term_discard_def


section \<open>The classifier's order\<close>

text \<open>
  C1 (as amended). For every host and every identifier token, the reader's result is
  decided by the five attempts of the specification in their fixed order, the first
  success being returned with the token's span: integer, fraction (exactly one slash,
  both sides integers, an Expression of the symbol \<open>fraction\<close> and the two Integers),
  float, complex (not attempted on the lone letter \<open>j\<close>), keyword (leading colon, no
  dot). When all five fail, the result is the Symbol of the mangled, rejoined segments
  unless the text has a dot and the segment before its first dot succeeds at one of the
  five attempts; then the result is the malformed-input error at the token's position.
\<close>

theorem classify_first_success:
  "t_identifier h tok =
     (case classify_spec h (getstr tok) of
        Some v \<Rightarrow> Inr (set_span (token_span tok) v)
      | None \<Rightarrow>
          if CHR ''.'' \<in> set (getstr tok) \<and>
             classify_spec h (takeWhile (\<lambda>x. x \<noteq> CHR ''.'') (getstr tok)) \<noteq> None
          then Inl (LexException no_attribute (lineno (source_pos tok)) (colno (source_pos tok)))
          else Inr (HySymbol (Some (token_span tok))
                      (join ''.'' (map mangle_spec (split CHR ''.'' (getstr tok))))))"
proof -
  have e: "hy_symbol_mangle = mangle_spec" by (simp add: mangle_refines fun_eq_iff)
  show ?thesis
    unfolding t_identifier_cases symbol_like_spec e by (rule refl)
qed

text \<open>One token for each of the six outcomes, and the lone \<open>j\<close>.\<close>

theorem classify_first_success_witness:
  "t_identifier decimal_host (ident ''5'' 1 1) =
     Inr (HyInteger (Some \<lparr>start_line = 1, start_column = 1, end_line = 1, end_column = 2\<rparr>) 5)
   \<and> t_identifier decimal_host (ident ''1/2'' 1 1) =
     Inr (HyExpression (Some \<lparr>start_line = 1, start_column = 1, end_line = 1, end_column = 4\<rparr>)
            [HySymbol None ''fraction'', HyInteger None 1, HyInteger None 2])
   \<and> t_identifier decimal_host (ident ''5.5'' 1 1) =
     Inr (HyFloat (Some \<lparr>start_line = 1, start_column = 1, end_line = 1, end_column = 4\<rparr>) ''5.5'')
   \<and> t_identifier decimal_host (ident ''2j'' 1 1) =
     Inr (HyComplex (Some \<lparr>start_line = 1, start_column = 1, end_line = 1, end_column = 3\<rparr>) ''2j'')
   \<and> t_identifier decimal_host (ident ''j'' 1 1) =
     Inr (HySymbol (Some \<lparr>start_line = 1, start_column = 1, end_line = 1, end_column = 2\<rparr>) ''j'')
   \<and> t_identifier decimal_host (ident '':foo'' 1 1) =
     Inr (HyKeyword (Some \<lparr>start_line = 1, start_column = 1, end_line = 1, end_column = 5\<rparr>) '':foo'')
   \<and> t_identifier decimal_host (ident ''foo-bar.baz?'' 1 1) =
     Inr (HySymbol (Some \<lparr>start_line = 1, start_column = 1, end_line = 1, end_column = 13\<rparr>)
            ''foo_bar.is_baz'')"
proof (intro conjI)
  show "t_identifier decimal_host (ident ''5'' 1 1) =
     Inr (HyInteger (Some \<lparr>start_line = 1, start_column = 1, end_line = 1, end_column = 2\<rparr>) 5)"
    unfolding classify_first_success by (simp add: decimal_defs spec_defs)
  show "t_identifier decimal_host (ident ''1/2'' 1 1) =
     Inr (HyExpression (Some \<lparr>start_line = 1, start_column = 1, end_line = 1, end_column = 4\<rparr>)
            [HySymbol None ''fraction'', HyInteger None 1, HyInteger None 2])"
    unfolding classify_first_success by (simp add: decimal_defs spec_defs)
  show "t_identifier decimal_host (ident ''5.5'' 1 1) =
     Inr (HyFloat (Some \<lparr>start_line = 1, start_column = 1, end_line = 1, end_column = 4\<rparr>) ''5.5'')"
    unfolding classify_first_success by (simp add: decimal_defs spec_defs)
  show "t_identifier decimal_host (ident ''2j'' 1 1) =
     Inr (HyComplex (Some \<lparr>start_line = 1, start_column = 1, end_line = 1, end_column = 3\<rparr>) ''2j'')"
    unfolding classify_first_success by (simp add: decimal_defs spec_defs)
  show "t_identifier decimal_host (ident ''j'' 1 1) =
     Inr (HySymbol (Some \<lparr>start_line = 1, start_column = 1, end_line = 1, end_column = 2\<rparr>) ''j'')"
    unfolding classify_first_success by (simp add: decimal_defs spec_defs)
  show "t_identifier decimal_host (ident '':foo'' 1 1) =
     Inr (HyKeyword (Some \<lparr>start_line = 1, start_column = 1, end_line = 1, end_column = 5\<rparr>) '':foo'')"
    unfolding classify_first_success by (simp add: decimal_defs spec_defs)
  show "t_identifier decimal_host (ident ''foo-bar.baz?'' 1 1) =
     Inr (HySymbol (Some \<lparr>start_line = 1, start_column = 1, end_line = 1, end_column = 13\<rparr>)
            ''foo_bar.is_baz'')"
    unfolding classify_first_success by (simp add: decimal_defs spec_defs)
qed

text \<open>
  The claim as first stated ends with an unconditional sixth step: whatever is none of
  the five is a Symbol. The token \<open>5.attr\<close> is none of the five, and the reader raises
  instead of returning a Symbol.
\<close>

theorem classify_otherwise_symbol_counterexample:
  "symbol_like decimal_host ''5.attr'' = None \<and>
   t_identifier decimal_host (ident ''5.attr'' 1 1) = Inl (LexException no_attribute 1 1)"
  by (simp add: eval_defs decimal_defs)

section \<open>Attribute access on a literal\<close>

text \<open>
  C4 (as amended). For every identifier token whose text contains a dot, if the segment
  before the first dot classifies as a number or a keyword and the whole text does not,
  the reader raises the malformed-input error at the token's line and column, and so
  produces no Symbol.
\<close>

theorem dotted_literal_prefix_rejected:
  "CHR ''.'' \<in> set (getstr tok) \<Longrightarrow>
   symbol_like h (takeWhile (\<lambda>x. x \<noteq> CHR ''.'') (getstr tok)) \<noteq> None \<Longrightarrow>
   symbol_like h (getstr tok) = None \<Longrightarrow>
   t_identifier h tok =
     Inl (LexException no_attribute (lineno (source_pos tok)) (colno (source_pos tok)))"
  unfolding t_identifier_cases by simp

theorem dotted_literal_prefix_rejected_witness:
  "CHR ''.'' \<in> set ''5.attr'' \<and>
   symbol_like decimal_host (takeWhile (\<lambda>x. x \<noteq> CHR ''.'') ''5.attr'') = Some (HyInteger None 5) \<and>
   symbol_like decimal_host ''5.attr'' = None \<and>
   t_identifier decimal_host (ident ''5.attr'' 3 7) = Inl (LexException no_attribute 3 7)"
proof -
  have a: "CHR ''.'' \<in> set (getstr (ident ''5.attr'' 3 7))" by (simp add: ident_def)
  have b: "symbol_like decimal_host (takeWhile (\<lambda>x. x \<noteq> CHR ''.'') (getstr (ident ''5.attr'' 3 7)))
            = Some (HyInteger None 5)"
    by (simp add: symbol_like_def decimal_defs)
  have c: "symbol_like decimal_host (getstr (ident ''5.attr'' 3 7)) = None"
    by (simp add: symbol_like_def decimal_defs)
  from b have b': "symbol_like decimal_host (takeWhile (\<lambda>x. x \<noteq> CHR ''.'') (getstr (ident ''5.attr'' 3 7)))
            \<noteq> None" by simp
  from dotted_literal_prefix_rejected[OF a b' c] a b c
  show ?thesis by (simp add: ident_def)
qed

text \<open>
  Without the condition on the whole text the claim fails: \<open>5.5\<close> contains a dot, the
  segment before it is the integer \<open>5\<close>, and the reader returns a Float.
\<close>

theorem dotted_literal_prefix_counterexample:
  "CHR ''.'' \<in> set ''5.5'' \<and>
   symbol_like decimal_host (takeWhile (\<lambda>x. x \<noteq> CHR ''.'') ''5.5'') = Some (HyInteger None 5) \<and>
   t_identifier decimal_host (ident ''5.5'' 1 1) =
     Inr (HyFloat (Some \<lparr>start_line = 1, start_column = 1, end_line = 1, end_column = 4\<rparr>) ''5.5'')"
  by (simp add: eval_defs decimal_defs)

section \<open>The mangling rules\<close>

text \<open>
  C5. Mangling is the composition of the four rules in the order earmuffs, hyphens,
  question mark, exclamation mark, each applied to the output of the one before; and the
  name of every Symbol read from an identifier token is the token's text split at its
  dots, each segment mangled so, and the results joined with dots again.
\<close>

theorem mangle_four_rules_in_order:
  "hy_symbol_mangle s = rule_bang (rule_question (rule_hyphens (rule_earmuffs s))) \<and>
   (\<forall>sp n. t_identifier h tok = Inr (HySymbol sp n) \<longrightarrow>
      n = join ''.''
            (map (\<lambda>seg. rule_bang (rule_question (rule_hyphens (rule_earmuffs seg))))
               (split CHR ''.'' (getstr tok))))"
proof -
  have e: "hy_symbol_mangle = (\<lambda>seg. rule_bang (rule_question (rule_hyphens (rule_earmuffs seg))))"
    by (simp add: fun_eq_iff mangle_refines mangle_spec_def)
  show ?thesis
    using t_identifier_symbol[of h tok] unfolding e by blast
qed

theorem mangle_four_rules_in_order_witness:
  "hy_symbol_mangle ''*foo-bar*'' = ''FOO_BAR'' \<and>
   hy_symbol_mangle ''a-b?'' = ''is_a_b'' \<and>
   hy_symbol_mangle ''a-b!'' = ''a_b_bang'' \<and>
   hy_symbol_mangle ''?!'' = ''?_bang'' \<and>
   hy_symbol_mangle ''-'' = ''-'' \<and>
   t_identifier decimal_host (ident ''*foo-bar*.baz?'' 1 1) =
     Inr (HySymbol (Some \<lparr>start_line = 1, start_column = 1, end_line = 1, end_column = 15\<rparr>)
            ''FOO_BAR.is_baz'') \<and>
   ''FOO_BAR.is_baz'' =
     join ''.'' (map (\<lambda>seg. rule_bang (rule_question (rule_hyphens (rule_earmuffs seg))))
                   (split CHR ''.'' ''*foo-bar*.baz?''))"
proof -
  have t: "t_identifier decimal_host (ident ''*foo-bar*.baz?'' 1 1) =
     Inr (HySymbol (Some \<lparr>start_line = 1, start_column = 1, end_line = 1, end_column = 15\<rparr>)
            ''FOO_BAR.is_baz'')"
    by (simp add: eval_defs decimal_defs upper_def upper_char_def)
  have g: "getstr (ident ''*foo-bar*.baz?'' 1 1) = ''*foo-bar*.baz?''" by (simp add: ident_def)
  note m = mangle_four_rules_in_order[of _ decimal_host "ident ''*foo-bar*.baz?'' 1 1"]
  have j: "''FOO_BAR.is_baz'' =
     join ''.'' (map (\<lambda>seg. rule_bang (rule_question (rule_hyphens (rule_earmuffs seg))))
                   (split CHR ''.'' ''*foo-bar*.baz?''))"
    using m[of "[]"] t unfolding g by blast
  have s: "hy_symbol_mangle ''*foo-bar*'' = ''FOO_BAR''" "hy_symbol_mangle ''a-b?'' = ''is_a_b''"
    "hy_symbol_mangle ''a-b!'' = ''a_b_bang''" "hy_symbol_mangle ''?!'' = ''?_bang''"
    "hy_symbol_mangle ''-'' = ''-''"
    unfolding m[THEN conjunct1]
    by (simp_all add: rule_earmuffs_def rule_hyphens_def rule_question_def rule_bang_def
        upper_def upper_char_def)
  from s t j show ?thesis by blast
qed

section \<open>Dotted lists\<close>

text \<open>
  C2. A parenthesized form whose contents are at least three items with the bare symbol
  \<open>.\<close> second to last reads as nested Cons cells: with the items \<open>xs\<close> before the
  separator and the item \<open>z\<close> after it, \<open>(a . b)\<close> is \<open>Cons a b\<close>, \<open>(a b . c)\<close> is
  \<open>Cons a (Cons b c)\<close>, and in general the cells are built from the right by the same
  rule. This holds when no item other than the separator is a bare dot; when one is, as
  in \<open>(a . b . c)\<close>, the form is a malformed-input error at the first such dot.
\<close>

theorem dotted_list_nested_cons:
  assumes "reduce_list_contents h c = Inr (xs @ [d, z])" and "xs \<noteq> []" and "is_dot d"
  shows "(find is_dot (xs @ [z]) = None \<longrightarrow>
            reduce_term h (Term_paren p0 c p2) =
              Inr (foldr (HyCons (Some (plain_span p0 p2))) xs z)) \<and>
         (\<forall>tok. find is_dot (xs @ [z]) = Some tok \<longrightarrow>
            (\<exists>s. span_of tok = Some s \<and>
                 reduce_term h (Term_paren p0 c p2) =
                   Inl (LexException ''Malformed dotted list'' (start_line s) (start_column s))))"
proof (intro conjI allI impI)
  assume "find is_dot (xs @ [z]) = None"
  then show "reduce_term h (Term_paren p0 c p2) =
      Inr (foldr (HyCons (Some (plain_span p0 p2))) xs z)"
    using assms by (simp add: term_pass_def paren_dotted_cons)
next
  fix tok assume f: "find is_dot (xs @ [z]) = Some tok"
  then have "tok \<in> set (xs @ [z])" by (rule find_in_set)
  then have "tok \<in> set (xs @ [d, z])" by auto
  with assms(1) obtain s where s: "span_of tok = Some s" by (blast dest: spanned_items)
  have "reduce_term h (Term_paren p0 c p2) = Inl (dot_error tok)"
    using assms f by (simp add: term_pass_def paren_dotted_reject)
  with s show "\<exists>s. span_of tok = Some s \<and>
      reduce_term h (Term_paren p0 c p2) =
        Inl (LexException ''Malformed dotted list'' (start_line s) (start_column s))"
    by (simp add: dot_error_spanned)
qed

theorem dotted_list_nested_cons_witness:
  "reduce_term decimal_host
     (Term_paren (mark ''LPAREN'' ''('' 1 1)
        (List_contents (Term_identifier (ident ''a'' 1 2))
          (List_contents (Term_identifier (ident ''.'' 1 4))
            (List_contents_single (Term_identifier (ident ''b'' 1 6)))))
        (mark ''RPAREN'' '')'' 1 7)) =
   Inr (HyCons (Some \<lparr>start_line = 1, start_column = 1, end_line = 1, end_column = 7\<rparr>)
          (HySymbol (Some \<lparr>start_line = 1, start_column = 2, end_line = 1, end_column = 3\<rparr>) ''a'')
          (HySymbol (Some \<lparr>start_line = 1, start_column = 6, end_line = 1, end_column = 7\<rparr>) ''b''))
   \<and>
   reduce_term decimal_host
     (Term_paren (mark ''LPAREN'' ''('' 1 1)
        (List_contents (Term_identifier (ident ''a'' 1 2))
          (List_contents (Term_identifier (ident ''b'' 1 4))
            (List_contents (Term_identifier (ident ''.'' 1 6))
              (List_contents_single (Term_identifier (ident ''c'' 1 8))))))
        (mark ''RPAREN'' '')'' 1 9)) =
   Inr (HyCons (Some \<lparr>start_line = 1, start_column = 1, end_line = 1, end_column = 9\<rparr>)
          (HySymbol (Some \<lparr>start_line = 1, start_column = 2, end_line = 1, end_column = 3\<rparr>) ''a'')
          (HyCons (Some \<lparr>start_line = 1, start_column = 1, end_line = 1, end_column = 9\<rparr>)
             (HySymbol (Some \<lparr>start_line = 1, start_column = 4, end_line = 1, end_column = 5\<rparr>) ''b'')
             (HySymbol (Some \<lparr>start_line = 1, start_column = 8, end_line = 1, end_column = 9\<rparr>) ''c'')))
   \<and>
   reduce_term decimal_host
     (Term_paren (mark ''LPAREN'' ''('' 1 1)
        (List_contents (Term_identifier (ident ''a'' 1 2))
          (List_contents (Term_identifier (ident ''.'' 1 4))
            (List_contents (Term_identifier (ident ''b'' 1 6))
              (List_contents (Term_identifier (ident ''.'' 1 8))
                (List_contents_single (Term_identifier (ident ''c'' 1 10)))))))
        (mark ''RPAREN'' '')'' 1 11)) =
   Inl (LexException ''Malformed dotted list'' 1 4)"
proof (intro conjI)
  let ?h = "decimal_host"
  let ?sym = "\<lambda>s l c. HySymbol (Some \<lparr>start_line = l, start_column = c, end_line = l,
      end_column = c + 1\<rparr>) s :: (string, string) hy"
  let ?c1 = "List_contents (Term_identifier (ident ''a'' 1 2))
          (List_contents (Term_identifier (ident ''.'' 1 4))
            (List_contents_single (Term_identifier (ident ''b'' 1 6))))"
  have r1: "reduce_list_contents ?h ?c1 = Inr ([?sym ''a'' 1 2] @ [?sym ''.'' 1 4, ?sym ''b'' 1 6])"
    by (simp add: read_simps)
  from dotted_list_nested_cons[OF r1, of "mark ''LPAREN'' ''('' 1 1" "mark ''RPAREN'' '')'' 1 7"]
  show "reduce_term ?h (Term_paren (mark ''LPAREN'' ''('' 1 1) ?c1 (mark ''RPAREN'' '')'' 1 7)) =
   Inr (HyCons (Some \<lparr>start_line = 1, start_column = 1, end_line = 1, end_column = 7\<rparr>)
          (HySymbol (Some \<lparr>start_line = 1, start_column = 2, end_line = 1, end_column = 3\<rparr>) ''a'')
          (HySymbol (Some \<lparr>start_line = 1, start_column = 6, end_line = 1, end_column = 7\<rparr>) ''b''))"
    by (simp add: plain_span_def mark_def)
  let ?c2 = "List_contents (Term_identifier (ident ''a'' 1 2))
          (List_contents (Term_identifier (ident ''b'' 1 4))
            (List_contents (Term_identifier (ident ''.'' 1 6))
              (List_contents_single (Term_identifier (ident ''c'' 1 8)))))"
  have r2: "reduce_list_contents ?h ?c2 =
      Inr ([?sym ''a'' 1 2, ?sym ''b'' 1 4] @ [?sym ''.'' 1 6, ?sym ''c'' 1 8])"
    by (simp add: read_simps)
  from dotted_list_nested_cons[OF r2, of "mark ''LPAREN'' ''('' 1 1" "mark ''RPAREN'' '')'' 1 9"]
  show "reduce_term ?h (Term_paren (mark ''LPAREN'' ''('' 1 1) ?c2 (mark ''RPAREN'' '')'' 1 9)) =
   Inr (HyCons (Some \<lparr>start_line = 1, start_column = 1, end_line = 1, end_column = 9\<rparr>)
          (HySymbol (Some \<lparr>start_line = 1, start_column = 2, end_line = 1, end_column = 3\<rparr>) ''a'')
          (HyCons (Some \<lparr>start_line = 1, start_column = 1, end_line = 1, end_column = 9\<rparr>)
             (HySymbol (Some \<lparr>start_line = 1, start_column = 4, end_line = 1, end_column = 5\<rparr>) ''b'')
             (HySymbol (Some \<lparr>start_line = 1, start_column = 8, end_line = 1, end_column = 9\<rparr>) ''c'')))"
    by (simp add: plain_span_def mark_def)
  let ?c3 = "List_contents (Term_identifier (ident ''a'' 1 2))
          (List_contents (Term_identifier (ident ''.'' 1 4))
            (List_contents (Term_identifier (ident ''b'' 1 6))
              (List_contents (Term_identifier (ident ''.'' 1 8))
                (List_contents_single (Term_identifier (ident ''c'' 1 10))))))"
  have r3: "reduce_list_contents ?h ?c3 =
      Inr ([?sym ''a'' 1 2, ?sym ''.'' 1 4, ?sym ''b'' 1 6] @ [?sym ''.'' 1 8, ?sym ''c'' 1 10])"
    by (simp add: read_simps)
  from dotted_list_nested_cons[OF r3, of "mark ''LPAREN'' ''('' 1 1" "mark ''RPAREN'' '')'' 1 11"]
  show "reduce_term ?h (Term_paren (mark ''LPAREN'' ''('' 1 1) ?c3 (mark ''RPAREN'' '')'' 1 11)) =
   Inl (LexException ''Malformed dotted list'' 1 4)"
    by simp
qed

section \<open>Spurious dots\<close>

text \<open>
  C3 (as amended). In a parenthesized form without a dotted tail, a bare \<open>.\<close> as the
  very first item is permitted and a bare \<open>.\<close> in any later position is a
  malformed-input error. In a form with a dotted tail (at least three items, a bare
  \<open>.\<close> second to last), a bare \<open>.\<close> in any position other than the separator's, the
  very first item included, is a malformed-input error. The error carries the start
  position of the first offending dot.
\<close>

theorem spurious_dot_rejected:
  assumes "reduce_list_contents h c = Inr cont"
  shows "(\<not> (3 \<le> length cont \<and> is_dot (cont ! (length cont - 2))) \<longrightarrow>
            (find is_dot (tl cont) = None \<longrightarrow>
               reduce_term h (Term_paren p0 c p2) =
                 Inr (HyExpression (Some (plain_span p0 p2)) cont)) \<and>
            (\<forall>tok. find is_dot (tl cont) = Some tok \<longrightarrow>
               (\<exists>s. span_of tok = Some s \<and>
                    reduce_term h (Term_paren p0 c p2) =
                      Inl (LexException ''Malformed dotted list'' (start_line s) (start_column s))))) \<and>
         (3 \<le> length cont \<and> is_dot (cont ! (length cont - 2)) \<longrightarrow>
            (\<forall>tok. find is_dot (take (length cont - 2) cont @ [last cont]) = Some tok \<longrightarrow>
               (\<exists>s. span_of tok = Some s \<and>
                    reduce_term h (Term_paren p0 c p2) =
                      Inl (LexException ''Malformed dotted list'' (start_line s) (start_column s)))))"
proof (intro conjI allI impI)
  assume "\<not> (3 \<le> length cont \<and> is_dot (cont ! (length cont - 2)))"
    and "find is_dot (tl cont) = None"
  then show "reduce_term h (Term_paren p0 c p2) = Inr (HyExpression (Some (plain_span p0 p2)) cont)"
    using assms by (simp add: term_pass_def paren_plain)
next
  fix tok
  assume n: "\<not> (3 \<le> length cont \<and> is_dot (cont ! (length cont - 2)))"
    and f: "find is_dot (tl cont) = Some tok"
  from f have "tok \<in> set (tl cont)" by (rule find_in_set)
  then have "tok \<in> set cont" by (metis list.set_sel(2) tl_Nil)
  with assms obtain s where s: "span_of tok = Some s" by (blast dest: spanned_items)
  have "reduce_term h (Term_paren p0 c p2) = Inl (dot_error tok)"
    using assms n f by (simp add: term_pass_def paren_plain)
  with s show "\<exists>s. span_of tok = Some s \<and>
      reduce_term h (Term_paren p0 c p2) =
        Inl (LexException ''Malformed dotted list'' (start_line s) (start_column s))"
    by (simp add: dot_error_spanned)
next
  fix tok
  assume d: "3 \<le> length cont \<and> is_dot (cont ! (length cont - 2))"
    and f: "find is_dot (take (length cont - 2) cont @ [last cont]) = Some tok"
  let ?xs = "take (length cont - 2) cont"
  from d have dec: "cont = ?xs @ [cont ! (length cont - 2), last cont]"
    by (intro dotted_decompose) simp
  from d have ne: "?xs \<noteq> []" by auto
  from f have "tok \<in> set (?xs @ [last cont])" by (rule find_in_set)
  then have "tok \<in> set (?xs @ [cont ! (length cont - 2), last cont])" by auto
  with dec have "tok \<in> set cont" by simp
  with assms obtain s where s: "span_of tok = Some s" by (blast dest: spanned_items)
  have "paren p0 (?xs @ [cont ! (length cont - 2), last cont]) p2 = Inl (dot_error tok)"
    using ne d f by (intro paren_dotted_reject) simp_all
  with dec have "paren p0 cont p2 = Inl (dot_error tok)" by simp
  then have "reduce_term h (Term_paren p0 c p2) = Inl (dot_error tok)"
    using assms by (simp add: term_pass_def)
  with s show "\<exists>s. span_of tok = Some s \<and>
      reduce_term h (Term_paren p0 c p2) =
        Inl (LexException ''Malformed dotted list'' (start_line s) (start_column s))"
    by (simp add: dot_error_spanned)
qed

theorem spurious_dot_rejected_witness:
  "reduce_term decimal_host
     (Term_paren (mark ''LPAREN'' ''('' 1 1)
        (List_contents (Term_identifier (ident ''.'' 1 2))
          (List_contents (Term_identifier (ident ''a'' 1 4))
            (List_contents_single (Term_identifier (ident ''b'' 1 6)))))
        (mark ''RPAREN'' '')'' 1 7)) =
   Inr (HyExpression (Some \<lparr>start_line = 1, start_column = 1, end_line = 1, end_column = 7\<rparr>)
          [HySymbol (Some \<lparr>start_line = 1, start_column = 2, end_line = 1, end_column = 3\<rparr>) ''.'',
           HySymbol (Some \<lparr>start_line = 1, start_column = 4, end_line = 1, end_column = 5\<rparr>) ''a'',
           HySymbol (Some \<lparr>start_line = 1, start_column = 6, end_line = 1, end_column = 7\<rparr>) ''b''])
   \<and>
   reduce_term decimal_host
     (Term_paren (mark ''LPAREN'' ''('' 1 1)
        (List_contents (Term_identifier (ident ''a'' 1 2))
          (List_contents (Term_identifier (ident ''.'' 1 4))
            (List_contents (Term_identifier (ident ''b'' 1 6))
              (List_contents_single (Term_identifier (ident ''c'' 1 8))))))
        (mark ''RPAREN'' '')'' 1 9)) =
   Inl (LexException ''Malformed dotted list'' 1 4)
   \<and>
   reduce_term decimal_host
     (Term_paren (mark ''LPAREN'' ''('' 1 1)
        (List_contents (Term_identifier (ident ''a'' 1 2))
          (List_contents (Term_identifier (ident ''.'' 1 4))
            (List_contents (Term_identifier (ident ''.'' 1 6))
              (List_contents_single (Term_identifier (ident ''c'' 1 8))))))
        (mark ''RPAREN'' '')'' 1 9)) =
   Inl (LexException ''Malformed dotted list'' 1 4)"
proof (intro conjI)
  let ?h = "decimal_host"
  let ?sym = "\<lambda>s l c. HySymbol (Some \<lparr>start_line = l, start_column = c, end_line = l,
      end_column = c + 1\<rparr>) s :: (string, string) hy"
  let ?c1 = "List_contents (Term_identifier (ident ''.'' 1 2))
          (List_contents (Term_identifier (ident ''a'' 1 4))
            (List_contents_single (Term_identifier (ident ''b'' 1 6))))"
  have r1: "reduce_list_contents ?h ?c1 = Inr [?sym ''.'' 1 2, ?sym ''a'' 1 4, ?sym ''b'' 1 6]"
    by (simp add: read_simps)
  from spurious_dot_rejected[OF r1, of "mark ''LPAREN'' ''('' 1 1" "mark ''RPAREN'' '')'' 1 7"]
  show "reduce_term ?h (Term_paren (mark ''LPAREN'' ''('' 1 1) ?c1 (mark ''RPAREN'' '')'' 1 7)) =
   Inr (HyExpression (Some \<lparr>start_line = 1, start_column = 1, end_line = 1, end_column = 7\<rparr>)
          [HySymbol (Some \<lparr>start_line = 1, start_column = 2, end_line = 1, end_column = 3\<rparr>) ''.'',
           HySymbol (Some \<lparr>start_line = 1, start_column = 4, end_line = 1, end_column = 5\<rparr>) ''a'',
           HySymbol (Some \<lparr>start_line = 1, start_column = 6, end_line = 1, end_column = 7\<rparr>) ''b''])"
    by (simp add: plain_span_def mark_def)
  let ?c2 = "List_contents (Term_identifier (ident ''a'' 1 2))
          (List_contents (Term_identifier (ident ''.'' 1 4))
            (List_contents (Term_identifier (ident ''b'' 1 6))
              (List_contents_single (Term_identifier (ident ''c'' 1 8)))))"
  have r2: "reduce_list_contents ?h ?c2 =
      Inr [?sym ''a'' 1 2, ?sym ''.'' 1 4, ?sym ''b'' 1 6, ?sym ''c'' 1 8]"
    by (simp add: read_simps)
  from spurious_dot_rejected[OF r2, of "mark ''LPAREN'' ''('' 1 1" "mark ''RPAREN'' '')'' 1 9"]
  show "reduce_term ?h (Term_paren (mark ''LPAREN'' ''('' 1 1) ?c2 (mark ''RPAREN'' '')'' 1 9)) =
   Inl (LexException ''Malformed dotted list'' 1 4)"
    by simp
  let ?c3 = "List_contents (Term_identifier (ident ''a'' 1 2))
          (List_contents (Term_identifier (ident ''.'' 1 4))
            (List_contents (Term_identifier (ident ''.'' 1 6))
              (List_contents_single (Term_identifier (ident ''c'' 1 8)))))"
  have r3: "reduce_list_contents ?h ?c3 =
      Inr [?sym ''a'' 1 2, ?sym ''.'' 1 4, ?sym ''.'' 1 6, ?sym ''c'' 1 8]"
    by (simp add: read_simps)
  from spurious_dot_rejected[OF r3, of "mark ''LPAREN'' ''('' 1 1" "mark ''RPAREN'' '')'' 1 9"]
  show "reduce_term ?h (Term_paren (mark ''LPAREN'' ''('' 1 1) ?c3 (mark ''RPAREN'' '')'' 1 9)) =
   Inl (LexException ''Malformed dotted list'' 1 4)"
    by simp
qed

text \<open>
  The claim as first stated also permits a leading dot in a form with a dotted tail.
  The form \<open>(. a . b)\<close> has one, and it is rejected at that dot (line 1, column 2).
\<close>

theorem first_dot_with_dotted_tail_counterexample:
  "reduce_term decimal_host
     (Term_paren (mark ''LPAREN'' ''('' 1 1)
        (List_contents (Term_identifier (ident ''.'' 1 2))
          (List_contents (Term_identifier (ident ''a'' 1 4))
            (List_contents (Term_identifier (ident ''.'' 1 6))
              (List_contents_single (Term_identifier (ident ''b'' 1 8))))))
        (mark ''RPAREN'' '')'' 1 9)) =
   Inl (LexException ''Malformed dotted list'' 1 2)"
  by (simp add: read_simps paren.simps)

section \<open>The discard marker\<close>

text \<open>
  C7. Whenever the discarded term \<open>x\<close> itself reads without error: a discard followed by
  a term \<open>y\<close> reads as \<open>y\<close>, so \<open>(#_x y)\<close> and \<open>(y)\<close> give the same result up to source
  positions; a sequence remainder made only of discard and term pairs contributes no
  element, so \<open>(#_x #_y)\<close> and \<open>()\<close> give the same result up to source positions.
\<close>

theorem discard_in_sequence:
  assumes "reduce_term h x = Inr vx"
  shows "reduce_term h (Term_discard d x y) = reduce_term h y \<and>
     strip_result (reduce_term h (Term_paren l (List_contents_single (Term_discard d x y)) r)) =
     strip_result (reduce_term h (Term_paren l' (List_contents_single y) r')) \<and>
     (\<forall>ds. reduce_discarded h ds = Inr () \<longrightarrow>
        reduce_list_contents h (List_contents_empty d x ds) = Inr [] \<and>
        strip_result (reduce_term h (Term_paren l (List_contents_empty d x ds) r)) =
        strip_result (reduce_term h (Term_empty_paren l' r'))) \<and>
     (\<forall>vy. reduce_term h y = Inr vy \<longrightarrow>
        strip_result
          (reduce_term h (Term_paren l (List_contents_empty d x (Discarded d' y Discarded_nil)) r)) =
        strip_result (reduce_term h (Term_empty_paren l' r')))"
proof -
  have a: "reduce_term h (Term_discard d x y) = reduce_term h y"
    using assms by (cases "reduce_term h y") (simp_all add: term_discard_def)
  have b: "strip_result (reduce_term h (Term_paren l (List_contents_single (Term_discard d x y)) r)) =
     strip_result (reduce_term h (Term_paren l' (List_contents_single y) r'))"
    using assms by (cases "reduce_term h y")
      (simp_all add: term_discard_def list_contents_single_def paren_single term_pass_def)
  have c: "reduce_list_contents h (List_contents_empty d x ds) = Inr [] \<and>
        strip_result (reduce_term h (Term_paren l (List_contents_empty d x ds) r)) =
        strip_result (reduce_term h (Term_empty_paren l' r'))"
    if "reduce_discarded h ds = Inr ()" for ds
    using assms that
    by (simp add: list_contents_empty_def paren_empty term_pass_def empty_paren_def)
  have e: "strip_result
          (reduce_term h (Term_paren l (List_contents_empty d x (Discarded d' y Discarded_nil)) r)) =
        strip_result (reduce_term h (Term_empty_paren l' r'))"
    if "reduce_term h y = Inr vy" for vy
    using assms that
    by (simp add: list_contents_empty_def paren_empty term_pass_def empty_paren_def)
  from a b c e show ?thesis by blast
qed

theorem discard_in_sequence_witness:
  "strip_result (reduce_term decimal_host
     (Term_paren (mark ''LPAREN'' ''('' 1 1)
        (List_contents_single
           (Term_discard (mark ''DISCARD'' ''#_'' 1 2)
              (Term_identifier (ident ''a'' 1 4)) (Term_identifier (ident ''b'' 1 6))))
        (mark ''RPAREN'' '')'' 1 7))) =
   strip_result (reduce_term decimal_host
     (Term_paren (mark ''LPAREN'' ''('' 1 1)
        (List_contents_single (Term_identifier (ident ''b'' 1 6)))
        (mark ''RPAREN'' '')'' 1 3)))
   \<and>
   strip_result (reduce_term decimal_host
     (Term_paren (mark ''LPAREN'' ''('' 1 1)
        (List_contents_empty (mark ''DISCARD'' ''#_'' 1 2) (Term_identifier (ident ''a'' 1 4))
           (Discarded (mark ''DISCARD'' ''#_'' 1 6) (Term_identifier (ident ''b'' 1 8))
              Discarded_nil))
        (mark ''RPAREN'' '')'' 1 9))) =
   strip_result (reduce_term decimal_host
     (Term_empty_paren (mark ''LPAREN'' ''('' 1 1) (mark ''RPAREN'' '')'' 1 2)))
   \<and>
   reduce_term decimal_host
     (Term_paren (mark ''LPAREN'' ''('' 1 1)
        (List_contents_single
           (Term_discard (mark ''DISCARD'' ''#_'' 1 2)
              (Term_identifier (ident ''a'' 1 4)) (Term_identifier (ident ''b'' 1 6))))
        (mark ''RPAREN'' '')'' 1 7)) =
   Inr (HyExpression (Some \<lparr>start_line = 1, start_column = 1, end_line = 1, end_column = 7\<rparr>)
          [HySymbol (Some \<lparr>start_line = 1, start_column = 6, end_line = 1, end_column = 7\<rparr>) ''b''])
   \<and>
   reduce_term decimal_host
     (Term_paren (mark ''LPAREN'' ''('' 1 1)
        (List_contents_single (Term_identifier (ident ''b'' 1 2)))
        (mark ''RPAREN'' '')'' 1 3)) =
   Inr (HyExpression (Some \<lparr>start_line = 1, start_column = 1, end_line = 1, end_column = 3\<rparr>)
          [HySymbol (Some \<lparr>start_line = 1, start_column = 2, end_line = 1, end_column = 3\<rparr>) ''b''])"
proof -
  have ra: "reduce_term decimal_host (Term_identifier (ident ''a'' 1 4)) =
      Inr (HySymbol (Some \<lparr>start_line = 1, start_column = 4, end_line = 1, end_column = 5\<rparr>) ''a'')"
    by (simp add: read_simps)
  have rb: "reduce_term decimal_host (Term_identifier (ident ''b'' 1 8)) =
      Inr (HySymbol (Some \<lparr>start_line = 1, start_column = 8, end_line = 1, end_column = 9\<rparr>) ''b'')"
    by (simp add: read_simps)
  note w = discard_in_sequence[OF ra]
  have 1: "strip_result (reduce_term decimal_host
     (Term_paren (mark ''LPAREN'' ''('' 1 1)
        (List_contents_single
           (Term_discard (mark ''DISCARD'' ''#_'' 1 2)
              (Term_identifier (ident ''a'' 1 4)) (Term_identifier (ident ''b'' 1 6))))
        (mark ''RPAREN'' '')'' 1 7))) =
   strip_result (reduce_term decimal_host
     (Term_paren (mark ''LPAREN'' ''('' 1 1)
        (List_contents_single (Term_identifier (ident ''b'' 1 6)))
        (mark ''RPAREN'' '')'' 1 3)))"
    using w by blast
  have 2: "strip_result (reduce_term decimal_host
     (Term_paren (mark ''LPAREN'' ''('' 1 1)
        (List_contents_empty (mark ''DISCARD'' ''#_'' 1 2) (Term_identifier (ident ''a'' 1 4))
           (Discarded (mark ''DISCARD'' ''#_'' 1 6) (Term_identifier (ident ''b'' 1 8))
              Discarded_nil))
        (mark ''RPAREN'' '')'' 1 9))) =
   strip_result (reduce_term decimal_host
     (Term_empty_paren (mark ''LPAREN'' ''('' 1 1) (mark ''RPAREN'' '')'' 1 2)))"
    using w rb by blast
  have 3: "reduce_term decimal_host
     (Term_paren (mark ''LPAREN'' ''('' 1 1)
        (List_contents_single
           (Term_discard (mark ''DISCARD'' ''#_'' 1 2)
              (Term_identifier (ident ''a'' 1 4)) (Term_identifier (ident ''b'' 1 6))))
        (mark ''RPAREN'' '')'' 1 7)) =
   Inr (HyExpression (Some \<lparr>start_line = 1, start_column = 1, end_line = 1, end_column = 7\<rparr>)
          [HySymbol (Some \<lparr>start_line = 1, start_column = 6, end_line = 1, end_column = 7\<rparr>) ''b''])"
    by (simp add: read_simps paren_single plain_span_def mark_def)
  have 4: "reduce_term decimal_host
     (Term_paren (mark ''LPAREN'' ''('' 1 1)
        (List_contents_single (Term_identifier (ident ''b'' 1 2)))
        (mark ''RPAREN'' '')'' 1 3)) =
   Inr (HyExpression (Some \<lparr>start_line = 1, start_column = 1, end_line = 1, end_column = 3\<rparr>)
          [HySymbol (Some \<lparr>start_line = 1, start_column = 2, end_line = 1, end_column = 3\<rparr>) ''b''])"
    by (simp add: read_simps paren_single plain_span_def mark_def)
  from 1 2 3 4 show ?thesis by blast
qed

text \<open>
  C10. The production for a discard followed by two terms returns its second term's
  node as it is: the same node, with the span that node already had. The span is not
  widened to the discard marker or to the discarded term.
\<close>

theorem discard_returns_second_term:
  "term_discard p0 p1 p2 = p2 \<and>
   span_of (term_discard p0 p1 p2) = span_of p2 \<and>
   (\<forall>va. reduce_term h a = Inr va \<longrightarrow>
      reduce_term h (Term_discard d a b) = reduce_term h b)"
proof -
  have "reduce_term h (Term_discard d a b) = reduce_term h b" if "reduce_term h a = Inr va" for va
    using that by (cases "reduce_term h b") (simp_all add: term_discard_def)
  then show ?thesis by (simp add: term_discard_def)
qed

theorem discard_returns_second_term_witness:
  "reduce_term decimal_host (Term_identifier (ident ''b'' 1 5)) =
     Inr (HySymbol (Some \<lparr>start_line = 1, start_column = 5, end_line = 1, end_column = 6\<rparr>) ''b'') \<and>
   reduce_term decimal_host
     (Term_discard (mark ''DISCARD'' ''#_'' 1 1)
        (Term_identifier (ident ''a'' 1 3)) (Term_identifier (ident ''b'' 1 5))) =
     Inr (HySymbol (Some \<lparr>start_line = 1, start_column = 5, end_line = 1, end_column = 6\<rparr>) ''b'')"
proof -
  have ra: "reduce_term decimal_host (Term_identifier (ident ''a'' 1 3)) =
      Inr (HySymbol (Some \<lparr>start_line = 1, start_column = 3, end_line = 1, end_column = 4\<rparr>) ''a'')"
    by (simp add: read_simps)
  have rb: "reduce_term decimal_host (Term_identifier (ident ''b'' 1 5)) =
     Inr (HySymbol (Some \<lparr>start_line = 1, start_column = 5, end_line = 1, end_column = 6\<rparr>) ''b'')"
    by (simp add: read_simps)
  from discard_returns_second_term[of _ _ _ decimal_host "Term_identifier (ident ''a'' 1 3)"] ra
  have "reduce_term decimal_host
     (Term_discard (mark ''DISCARD'' ''#_'' 1 1)
        (Term_identifier (ident ''a'' 1 3)) (Term_identifier (ident ''b'' 1 5))) =
     reduce_term decimal_host (Term_identifier (ident ''b'' 1 5))"
    by blast
  with rb show ?thesis by simp
qed

section \<open>Unterminated strings\<close>

text \<open>
  C9. The production for an unterminated string raises the incomplete-input exception
  for every token, whatever its text and position and whatever the host; it never
  raises the malformed-input exception and never returns a node.
\<close>

theorem partial_string_incomplete:
  "t_partial_string p0 = (Inl (PrematureEndOfInput ''Premature end of input'') :: exc + ('f, 'c) hy) \<and>
   reduce_term (h :: ('f, 'c) host) (Term_partial_string p0) =
     Inl (PrematureEndOfInput ''Premature end of input'') \<and>
   reduce_main h (Main (List_contents_single (Term_partial_string p0))) =
     Inl (PrematureEndOfInput ''Premature end of input'') \<and>
   (\<forall>msg line col. reduce_term h (Term_partial_string p0) \<noteq> Inl (LexException msg line col))"
  by (simp add: t_partial_string_def)

section \<open>Hyphens in symbol names\<close>

text \<open>
  C6 (as amended). For every Symbol node anywhere in a term the reader produces, each
  dot-separated segment of its name either contains no \<open>-\<close> or is exactly the
  one-character segment \<open>-\<close>.
\<close>

theorem symbol_segments_hyphen_free:
  "reduce_term h t = Inr v \<Longrightarrow> n \<in> symbol_names v \<Longrightarrow>
   list_all (\<lambda>seg. CHR ''-'' \<notin> set seg \<or> seg = ''-'') (split CHR ''.'' n)"
  using reduce_names(1)[of h t v n] by (simp add: hyphen_free_segments_def)

theorem symbol_segments_hyphen_free_witness:
  "reduce_term decimal_host (Term_identifier (ident ''a.-'' 1 1)) =
     Inr (HySymbol (Some \<lparr>start_line = 1, start_column = 1, end_line = 1, end_column = 4\<rparr>) ''a.-'') \<and>
   list_all (\<lambda>seg. CHR ''-'' \<notin> set seg \<or> seg = ''-'') (split CHR ''.'' ''a.-'')"
proof -
  have r: "reduce_term decimal_host (Term_identifier (ident ''a.-'' 1 1)) =
     Inr (HySymbol (Some \<lparr>start_line = 1, start_column = 1, end_line = 1, end_column = 4\<rparr>) ''a.-'')"
    by (simp add: read_a_hyphen term_pass_def)
  from symbol_segments_hyphen_free[OF r, of "''a.-''"] r show ?thesis by simp
qed

text \<open>
  The claim as first stated speaks of the whole name. The token \<open>a.-\<close> reads as the
  Symbol \<open>a.-\<close>, whose name contains \<open>-\<close> and is not the one-character name \<open>-\<close>.
\<close>

theorem symbol_without_hyphen_counterexample:
  "reduce_term decimal_host (Term_identifier (ident ''a.-'' 1 1)) =
     Inr (HySymbol (Some \<lparr>start_line = 1, start_column = 1, end_line = 1, end_column = 4\<rparr>) ''a.-'') \<and>
   CHR ''-'' \<in> set ''a.-'' \<and> ''a.-'' \<noteq> ''-''"
  by (simp add: read_a_hyphen term_pass_def)

section \<open>Unpacking markers\<close>

text \<open>
  C8. For every HASHSTARS marker, that is a token whose text is \<open>#\<close> followed by \<open>n\<close>
  asterisks, and every following term that reads without error: with \<open>n = 1\<close> the result
  is the call form of \<open>unpack_iterable\<close> around the term's node, with \<open>n = 2\<close> that of
  \<open>unpack_mapping\<close>, both spanning from the marker to the end of the term; with any
  other \<open>n\<close> it is the malformed-input error at the marker's line and column. So
  \<open>#*x\<close> and \<open>(unpack_iterable x)\<close> give the same result up to source positions (and
  likewise for two asterisks), for every term \<open>x\<close> that a parenthesized form admits in
  second place, on a host that does not read the word \<open>unpack_iterable\<close> as a number.
\<close>

theorem hashstars_by_star_count:
  assumes "getstr m = CHR ''#'' # replicate n CHR ''*''" and "reduce_term h x = Inr vx"
  shows "\<exists>s. span_of vx = Some s \<and>
     (n = 1 \<longrightarrow>
        reduce_term h (Term_hashstars m x) =
          Inr (HyExpression (Some (quote_span m s)) [HySymbol None ''unpack_iterable'', vx])) \<and>
     (n = 2 \<longrightarrow>
        reduce_term h (Term_hashstars m x) =
          Inr (HyExpression (Some (quote_span m s)) [HySymbol None ''unpack_mapping'', vx])) \<and>
     (n \<noteq> 1 \<and> n \<noteq> 2 \<longrightarrow>
        reduce_term h (Term_hashstars m x) =
          Inl (LexException too_many_stars (lineno (source_pos m)) (colno (source_pos m)))) \<and>
     (n = 1 \<and> \<not> is_dot vx \<and> getstr u = ''unpack_iterable'' \<and>
      symbol_like h ''unpack_iterable'' = None \<longrightarrow>
        strip_result (reduce_term h (Term_hashstars m x)) =
        strip_result (reduce_term h
          (Term_paren l (List_contents (Term_identifier u) (List_contents_single x)) r))) \<and>
     (n = 2 \<and> \<not> is_dot vx \<and> getstr u = ''unpack_mapping'' \<and>
      symbol_like h ''unpack_mapping'' = None \<longrightarrow>
        strip_result (reduce_term h (Term_hashstars m x)) =
        strip_result (reduce_term h
          (Term_paren l (List_contents (Term_identifier u) (List_contents_single x)) r)))"
proof -
  from reduce_spans(1)[OF assms(2)] obtain s where s: "span_of vx = Some s" by auto
  have len: "length (tl (getstr m)) = n" using assms(1) by (rule hashstars_stars)
  have red: "reduce_term h (Term_hashstars m x) = term_hashstars m vx"
    using assms(2) by simp
  note res = term_hashstars_result[OF s, of m, unfolded len]
  have p: "strip_result (reduce_term h (Term_hashstars m x)) =
        strip_result (reduce_term h
          (Term_paren l (List_contents (Term_identifier u) (List_contents_single x)) r))"
    if "\<not> is_dot vx" "getstr u = name" "symbol_like h name = None" "CHR ''.'' \<notin> set name"
      "hy_symbol_mangle name = name"
      "term_hashstars m vx = Inr (HyExpression (Some (quote_span m s)) [HySymbol None name, vx])"
    for name
  proof -
    have "t_identifier h u = Inr (HySymbol (Some (token_span u)) name)"
      using that by (intro read_plain_symbol) simp_all
    then have "reduce_term h
          (Term_paren l (List_contents (Term_identifier u) (List_contents_single x)) r) =
        Inr (HyExpression (Some (plain_span l r)) [HySymbol (Some (token_span u)) name, vx])"
      using assms(2) that(1)
      by (simp add: term_pass_def list_contents_def list_contents_single_def paren_pair)
    then show ?thesis using that(6) red by simp
  qed
  have p1: "strip_result (reduce_term h (Term_hashstars m x)) =
        strip_result (reduce_term h
          (Term_paren l (List_contents (Term_identifier u) (List_contents_single x)) r))"
    if "n = 1 \<and> \<not> is_dot vx \<and> getstr u = ''unpack_iterable'' \<and>
      symbol_like h ''unpack_iterable'' = None"
    using that res by (intro p[of "''unpack_iterable''"]) (simp_all add: mangle_unpack)
  have p2: "strip_result (reduce_term h (Term_hashstars m x)) =
        strip_result (reduce_term h
          (Term_paren l (List_contents (Term_identifier u) (List_contents_single x)) r))"
    if "n = 2 \<and> \<not> is_dot vx \<and> getstr u = ''unpack_mapping'' \<and>
      symbol_like h ''unpack_mapping'' = None"
    using that res by (intro p[of "''unpack_mapping''"]) (simp_all add: mangle_unpack)
  from s red res p1 p2 show ?thesis by auto
qed

theorem hashstars_by_star_count_witness:
  "reduce_term decimal_host
     (Term_hashstars (mark ''HASHSTARS'' ''#*'' 1 1) (Term_identifier (ident ''x'' 1 3))) =
   Inr (HyExpression (Some \<lparr>start_line = 1, start_column = 1, end_line = 1, end_column = 4\<rparr>)
          [HySymbol None ''unpack_iterable'',
           HySymbol (Some \<lparr>start_line = 1, start_column = 3, end_line = 1, end_column = 4\<rparr>) ''x''])
   \<and>
   strip_result (reduce_term decimal_host
     (Term_hashstars (mark ''HASHSTARS'' ''#*'' 1 1) (Term_identifier (ident ''x'' 1 3)))) =
   strip_result (reduce_term decimal_host
     (Term_paren (mark ''LPAREN'' ''('' 1 1)
        (List_contents (Term_identifier (ident ''unpack_iterable'' 1 2))
           (List_contents_single (Term_identifier (ident ''x'' 1 3))))
        (mark ''RPAREN'' '')'' 1 19)))"
proof -
  let ?x = "Term_identifier (ident ''x'' 1 3)"
  let ?vx = "HySymbol (Some \<lparr>start_line = 1, start_column = 3, end_line = 1, end_column = 4\<rparr>) ''x''
      :: (string, string) hy"
  have g: "getstr (mark ''HASHSTARS'' ''#*'' 1 1) = CHR ''#'' # replicate 1 CHR ''*''"
    by (simp add: mark_def)
  have rx: "reduce_term decimal_host ?x = Inr ?vx" by (simp add: read_simps)
  have nd: "\<not> is_dot ?vx" by simp
  have gu: "getstr (ident ''unpack_iterable'' 1 2) = ''unpack_iterable''" by (simp add: ident_def)
  have sl: "symbol_like decimal_host ''unpack_iterable'' = None"
    by (simp add: symbol_like_def decimal_defs)
  from hashstars_by_star_count[OF g rx, of "ident ''unpack_iterable'' 1 2"
      "mark ''LPAREN'' ''('' 1 1" "mark ''RPAREN'' '')'' 1 19"] nd gu sl
  show ?thesis by (auto simp: quote_span_def mark_def)
qed

end
